theory Spec2Isabelle
  imports Complex_Main
begin

section \<open>Values\<close>

text \<open>
  The server (server.js) is an Express application over Mongoose models and the
  jsonwebtoken package. Request bodies, token payloads and constructor arguments are
  JavaScript values; stored documents hold BSON values. An ObjectId is modelled by the
  number it encodes, a date by its milliseconds since the epoch, a string by its list of
  (8-bit) characters.
\<close>

type_synonym objectId = nat

datatype jsval =
    JNull
  | JBool bool
  | JNum real
  | JStr string
  | JArr "jsval list"
  | JObj "(string \<times> jsval) list"
  | JId objectId

datatype bson = BNull | BBool bool | BNum real | BStr string | BDate int | BId objectId

type_synonym jsobject = "string \<rightharpoonup> jsval"
type_synonym document = "string \<rightharpoonup> bson"

datatype schemaType = TObjectId | TString | TNumber | TDate | TBoolean

text \<open>Everything the handlers can see thrown, as a value.\<close>

datatype error =
    JsonWebTokenError string
  | TokenExpiredError
  | CastError string
  | ValidationError "string list"
  | DuplicateKeyError
  | ImmutableFieldError
  | TypeError

section \<open>Library behaviour taken as a parameter\<close>

text \<open>
  What the packages compute on raw strings and across types depends on their installed
  versions and is not part of this repository; the model takes it as a record of
  functions, and the general theorems below hold for every such record.
  \<^item> \<open>parseObjectId\<close>: the ObjectId constructor on a string, \<open>None\<close> when it throws;
  \<^item> \<open>toHexString\<close>: the JSON form of an ObjectId;
  \<^item> \<open>coerce\<close>: Mongoose's cast of a value whose JavaScript type is not the schema type,
    \<open>None\<close> when it raises a CastError;
  \<^item> \<open>settersOnQuery\<close>: whether schema setters (\<open>trim\<close>) also run on query filters;
  \<^item> \<open>toNumber\<close>: JavaScript's ToNumber, \<open>None\<close> for NaN;
  \<^item> \<open>hash\<close>: the password digest;
  \<^item> \<open>timespan\<close>: the seconds a time-span string such as 7d denotes, \<open>None\<close> when it
    does not denote one;
  \<^item> \<open>encodeJws\<close>, \<open>decodeJws\<close>: the compact serialisation of a payload with its
    signature, and its parser (\<open>None\<close> for a malformed token);
  \<^item> \<open>hmac\<close>: the signature of a payload under a secret.
\<close>

record claims =
  userId :: "jsval option"
  iat :: int
  expiry :: "int option"

record lib =
  parseObjectId :: "string \<Rightarrow> objectId option"
  toHexString :: "objectId \<Rightarrow> string"
  coerce :: "schemaType \<Rightarrow> jsval \<Rightarrow> bson option"
  settersOnQuery :: bool
  toNumber :: "jsval \<Rightarrow> real option"
  hash :: "string \<Rightarrow> string"
  timespan :: "string \<Rightarrow> int option"
  encodeJws :: "claims \<Rightarrow> string \<Rightarrow> string"
  decodeJws :: "string \<Rightarrow> (claims \<times> string) option"
  hmac :: "string \<Rightarrow> claims \<Rightarrow> string"

text \<open>process.env, as far as the server reads it.\<close>

record env =
  JWT_SECRET :: "string option"
  JWT_EXPIRES_IN :: "string option"

section \<open>Token service\<close>

text \<open>
  JSON.stringify followed by JSON.parse, which is what a payload goes through between
  jwt.sign and jwt.verify: an ObjectId becomes its hexadecimal string, JSON data is
  unchanged.
\<close>

primrec toJSON :: "lib \<Rightarrow> jsval \<Rightarrow> jsval" where
  "toJSON L JNull = JNull"
| "toJSON L (JBool b) = JBool b"
| "toJSON L (JNum n) = JNum n"
| "toJSON L (JStr s) = JStr s"
| "toJSON L (JArr xs) = JArr (map (toJSON L) xs)"
| "toJSON L (JObj kvs) = JObj (map (map_prod id (toJSON L)) kvs)"
| "toJSON L (JId i) = JStr (toHexString L i)"

text \<open>
  jwt.sign(payload, secret, {expiresIn}) at clock \<open>now\<close> (milliseconds): it refuses a
  missing or empty secret and a span it cannot read, stamps \<open>iat\<close> with the clock in
  seconds and \<open>exp\<close> with \<open>iat\<close> plus the span, and signs.
\<close>

definition jwt_sign :: "lib \<Rightarrow> int \<Rightarrow> jsval option \<Rightarrow> string option \<Rightarrow> string \<Rightarrow> error + string" where
  "jwt_sign L now uid secret expiresIn =
     (case secret of
        None \<Rightarrow> Inl (JsonWebTokenError ''secretOrPrivateKey must have a value'')
      | Some k \<Rightarrow>
          if k = [] then Inl (JsonWebTokenError ''secretOrPrivateKey must have a value'')
          else (case timespan L expiresIn of
                  None \<Rightarrow> Inl (JsonWebTokenError ''expiresIn should be a number of seconds or string representing a timespan'')
                | Some ttl \<Rightarrow>
                    let c = \<lparr>userId = map_option (toJSON L) uid,
                             iat = now div 1000,
                             expiry = Some (now div 1000 + ttl)\<rparr>
                    in Inr (encodeJws L c (hmac L k c))))"

text \<open>
  jwt.verify(token, secret) at clock \<open>now\<close>: the token must be present, parse, carry the
  signature of its payload under the secret, and not have reached its \<open>exp\<close>.
\<close>

definition jwt_verify :: "lib \<Rightarrow> int \<Rightarrow> string option \<Rightarrow> string option \<Rightarrow> error + claims" where
  "jwt_verify L now token secret =
     (case token of
        None \<Rightarrow> Inl (JsonWebTokenError ''jwt must be provided'')
      | Some t \<Rightarrow>
          if t = [] then Inl (JsonWebTokenError ''jwt must be provided'')
          else (case decodeJws L t of
                  None \<Rightarrow> Inl (JsonWebTokenError ''jwt malformed'')
                | Some (c, sg) \<Rightarrow>
                    (case secret of
                       None \<Rightarrow> Inl (JsonWebTokenError ''secret or public key must be provided'')
                     | Some k \<Rightarrow>
                         if k = [] then Inl (JsonWebTokenError ''secret or public key must be provided'')
                         else if sg \<noteq> hmac L k c then Inl (JsonWebTokenError ''invalid signature'')
                         else (case expiry c of
                                 None \<Rightarrow> Inr c
                               | Some e \<Rightarrow> if now div 1000 \<ge> e then Inl TokenExpiredError else Inr c))))"

text \<open>\<open>process.env.JWT_EXPIRES_IN || '7d'\<close>: unset and empty both give the default.\<close>

definition expiresIn :: "env \<Rightarrow> string" where
  "expiresIn e = (case JWT_EXPIRES_IN e of None \<Rightarrow> ''7d'' | Some s \<Rightarrow> if s = [] then ''7d'' else s)"

definition generateToken :: "lib \<Rightarrow> env \<Rightarrow> int \<Rightarrow> jsval option \<Rightarrow> error + string" where
  "generateToken L e now uid = jwt_sign L now uid (JWT_SECRET e) (expiresIn e)"

text \<open>verifyToken: the try/catch turns every error of jwt.verify into null.\<close>

definition verifyToken :: "lib \<Rightarrow> env \<Rightarrow> int \<Rightarrow> string option \<Rightarrow> claims option" where
  "verifyToken L e now token =
     (case jwt_verify L now token (JWT_SECRET e) of Inl err \<Rightarrow> None | Inr c \<Rightarrow> Some c)"

section \<open>Strings\<close>

text \<open>String.prototype.toLowerCase, startsWith, split, trim, on ASCII text.\<close>

definition toLowerCase :: "string \<Rightarrow> string" where
  "toLowerCase s =
     map (\<lambda>c. case map_of (zip ''ABCDEFGHIJKLMNOPQRSTUVWXYZ'' ''abcdefghijklmnopqrstuvwxyz'') c of
                 None \<Rightarrow> c
               | Some l \<Rightarrow> l) s"

definition startsWith :: "string \<Rightarrow> string \<Rightarrow> bool" where
  "startsWith s pre = (take (length pre) s = pre)"

fun split_js :: "char \<Rightarrow> string \<Rightarrow> string list" where
  "split_js sep [] = [[]]"
| "split_js sep (c # cs) =
     (if c = sep then [] # split_js sep cs
      else (case split_js sep cs of [] \<Rightarrow> [[c]] | w # ws \<Rightarrow> (c # w) # ws))"

text \<open>\<open>xs[i]\<close>: undefined beyond the end.\<close>

fun index_js :: "'a list \<Rightarrow> nat \<Rightarrow> 'a option" where
  "index_js [] i = None"
| "index_js (x # xs) 0 = Some x"
| "index_js (x # xs) (Suc i) = index_js xs i"

definition isSpace :: "char \<Rightarrow> bool" where
  "isSpace c = (c \<in> set [CHR '' '', CHR 0x09, CHR 0x0A, CHR 0x0B, CHR 0x0C, CHR 0x0D])"

definition trim_js :: "string \<Rightarrow> string" where
  "trim_js s = rev (dropWhile isSpace (rev (dropWhile isSpace s)))"

section \<open>Schemas\<close>

text \<open>
  A schema lists its paths with their options, as the model files declare them:
  \<open>type\<close>, \<open>required\<close> (\<open>true\<close> or a function of the document), \<open>enum\<close>, \<open>min\<close>,
  \<open>default\<close> (a function of the clock) and \<open>trim\<close>.
\<close>

record schemaPath =
  ptype :: schemaType
  required :: "(document \<Rightarrow> bool) option"
  enumValues :: "string list option"
  minimum :: "real option"
  dflt :: "(int \<Rightarrow> bson) option"
  trim :: bool

type_synonym schema = "(string \<times> schemaPath) list"

definition path :: "schemaType \<Rightarrow> schemaPath" where
  "path T = \<lparr>ptype = T, required = None, enumValues = None, minimum = None, dflt = None, trim = False\<rparr>"

definition always :: "(document \<Rightarrow> bool) option" where
  "always = Some (\<lambda>this. True)"

text \<open>models/Transaction.js\<close>

definition transactionSchema :: schema where
  "transactionSchema =
     [(''userId'', (path TObjectId)\<lparr>required := always\<rparr>),
      (''type'', (path TString)\<lparr>enumValues := Some [''income'', ''expense''], required := always\<rparr>),
      (''date'', (path TDate)\<lparr>required := always\<rparr>),
      (''category'', (path TString)\<lparr>required := always\<rparr>),
      (''description'', (path TString)\<lparr>required := always\<rparr>),
      (''amount'', (path TNumber)\<lparr>required := always, minimum := Some 0\<rparr>),
      (''customerName'',
         (path TString)\<lparr>required := Some (\<lambda>this. this ''type'' = Some (BStr ''income''))\<rparr>),
      (''invoiceNumber'', (path TString)\<lparr>dflt := Some (\<lambda>now. BStr [])\<rparr>),
      (''createdAt'', (path TDate)\<lparr>dflt := Some BDate\<rparr>),
      (''updatedAt'', (path TDate)\<lparr>dflt := Some BDate\<rparr>)]"

text \<open>models/BalanceItem.js\<close>

definition balanceItemSchema :: schema where
  "balanceItemSchema =
     [(''userId'', (path TObjectId)\<lparr>required := always\<rparr>),
      (''type'',
         (path TString)\<lparr>enumValues := Some [''asset'', ''liability'', ''equity''], required := always\<rparr>),
      (''date'', (path TDate)\<lparr>required := always\<rparr>),
      (''category'', (path TString)\<lparr>required := always\<rparr>),
      (''description'', (path TString)\<lparr>required := always\<rparr>),
      (''amount'', (path TNumber)\<lparr>required := always, minimum := Some 0\<rparr>),
      (''createdAt'', (path TDate)\<lparr>dflt := Some BDate\<rparr>),
      (''updatedAt'', (path TDate)\<lparr>dflt := Some BDate\<rparr>)]"

text \<open>models/Category.js\<close>

definition categorySchema :: schema where
  "categorySchema =
     [(''userId'', (path TObjectId)\<lparr>required := always\<rparr>),
      (''type'', (path TString)\<lparr>enumValues := Some [''income'', ''expense''], required := always\<rparr>),
      (''name'', (path TString)\<lparr>required := always, trim := True\<rparr>),
      (''isDefault'', (path TBoolean)\<lparr>dflt := Some (\<lambda>now. BBool False)\<rparr>),
      (''createdAt'', (path TDate)\<lparr>dflt := Some BDate\<rparr>)]"

text \<open>
  Modelled from the spec: models/User.js is not among the sources. The data model gives a
  user a unique email, a password stored as its hash, and a creation timestamp.
\<close>

definition userSchema :: schema where
  "userSchema =
     [(''email'', (path TString)\<lparr>required := always\<rparr>),
      (''password'', (path TString)\<lparr>required := always\<rparr>),
      (''createdAt'', (path TDate)\<lparr>dflt := Some BDate\<rparr>)]"

section \<open>Documents: casting, construction, validation\<close>

text \<open>new Date(n) keeps the integral part of a number in the range of ECMAScript time values.\<close>

definition trunc :: "real \<Rightarrow> int" where
  "trunc x = (if 0 \<le> x then \<lfloor>x\<rfloor> else \<lceil>x\<rceil>)"

text \<open>
  The cast of a value to a schema type. \<open>null\<close> stays \<open>null\<close>; a value of the type's
  own JavaScript type is taken as it is; a string is read as an ObjectId by the driver; a
  number is read as a date; every other combination is the library's conversion.
  \<open>None\<close> is a CastError.
\<close>

fun castValue :: "lib \<Rightarrow> schemaType \<Rightarrow> jsval \<Rightarrow> bson option" where
  "castValue L T JNull = Some BNull"
| "castValue L TObjectId (JId i) = Some (BId i)"
| "castValue L TObjectId (JStr s) = map_option BId (parseObjectId L s)"
| "castValue L TString (JStr s) = Some (BStr s)"
| "castValue L TNumber (JNum n) = Some (BNum n)"
| "castValue L TBoolean (JBool b) = Some (BBool b)"
| "castValue L TDate (JNum n) =
     (if \<bar>n\<bar> \<le> 8640000000000000 then Some (BDate (trunc n)) else None)"
| "castValue L T v = coerce L T v"

text \<open>The cast at a path: the type's cast, then the \<open>trim\<close> setter.\<close>

definition castPath :: "lib \<Rightarrow> schemaPath \<Rightarrow> jsval \<Rightarrow> bson option" where
  "castPath L sp v =
     (case castValue L (ptype sp) v of
        Some (BStr s) \<Rightarrow> Some (BStr (if trim sp then trim_js s else s))
      | r \<Rightarrow> r)"

text \<open>
  Every schema has the path \<open>_id\<close>; a document must have one to be saved. Its default, a
  newly generated identifier, is supplied by \<open>newDoc\<close> below.
\<close>

definition withId :: "schema \<Rightarrow> schema" where
  "withId sch = (''_id'', (path TObjectId)\<lparr>required := always\<rparr>) # sch"

text \<open>
  A model: its schema, its unique indexes besides \<open>_id\<close>, and its pre-save hook (given
  the clock).
\<close>

record model =
  schema :: schema
  uniqueIndexes :: "string list list"
  preSave :: "int \<Rightarrow> document \<Rightarrow> document"

text \<open>
  A document under construction: its fields, and the paths whose value did not cast
  (reported when the document is validated).
\<close>

record draft =
  doc :: document
  castErrors :: "string list"

text \<open>The identifiers in a collection, and one that is new to it.\<close>

definition ids :: "document list \<Rightarrow> objectId list" where
  "ids coll = List.map_filter (\<lambda>d. case d ''_id'' of Some (BId i) \<Rightarrow> Some i | _ \<Rightarrow> None) coll"

definition freshId :: "document list \<Rightarrow> objectId" where
  "freshId coll = Suc (foldr max (ids coll) 0)"

text \<open>
  \<open>new Model(obj)\<close>: a path of the schema takes the cast of the object's value, or its
  default when the object has none; what the schema does not declare is dropped
  (strict mode).
\<close>

definition initPath :: "lib \<Rightarrow> int \<Rightarrow> schemaPath \<Rightarrow> jsval option \<Rightarrow> bson option" where
  "initPath L now sp v =
     (case v of
        None \<Rightarrow> map_option (\<lambda>f. f now) (dflt sp)
      | Some x \<Rightarrow> castPath L sp x)"

definition newDoc :: "lib \<Rightarrow> int \<Rightarrow> model \<Rightarrow> document list \<Rightarrow> jsobject \<Rightarrow> draft" where
  "newDoc L now M coll obj =
     \<lparr>doc =
        (\<lambda>p. if p = ''_id'' \<and> obj p = None then Some (BId (freshId coll))
             else (case map_of (withId (schema M)) p of
                     None \<Rightarrow> None
                   | Some sp \<Rightarrow> initPath L now sp (obj p))),
      castErrors =
        map fst (filter (\<lambda>(p, sp). case obj p of None \<Rightarrow> False | Some x \<Rightarrow> castPath L sp x = None)
                   (withId (schema M)))\<rparr>"

text \<open>
  Validators. \<open>required\<close> fails on a missing value, on \<open>null\<close> and on the empty string;
  \<open>enum\<close> and \<open>min\<close> look at strings and numbers only.
\<close>

definition present :: "bson option \<Rightarrow> bool" where
  "present v = (case v of None \<Rightarrow> False | Some BNull \<Rightarrow> False | Some (BStr s) \<Rightarrow> s \<noteq> [] | Some b \<Rightarrow> True)"

definition validPath :: "schemaPath \<Rightarrow> document \<Rightarrow> bson option \<Rightarrow> bool" where
  "validPath sp this v =
     ((case required sp of None \<Rightarrow> True | Some r \<Rightarrow> if r this then present v else True)
      \<and> (case (v, enumValues sp) of (Some (BStr s), Some vs) \<Rightarrow> s \<in> set vs | _ \<Rightarrow> True)
      \<and> (case (v, minimum sp) of (Some (BNum n), Some m) \<Rightarrow> m \<le> n | _ \<Rightarrow> True))"

definition invalidPaths :: "model \<Rightarrow> draft \<Rightarrow> string list" where
  "invalidPaths M dr =
     castErrors dr
     @ map fst (filter (\<lambda>(p, sp). \<not> validPath sp (doc dr) (doc dr p)) (withId (schema M)))"

section \<open>Collections: save, find, update, delete\<close>

text \<open>An index key reads a missing field as \<open>null\<close>, and so does a filter.\<close>

definition keyOf :: "document \<Rightarrow> string \<Rightarrow> bson" where
  "keyOf d p = (case d p of None \<Rightarrow> BNull | Some b \<Rightarrow> b)"

definition duplicate :: "model \<Rightarrow> document list \<Rightarrow> document \<Rightarrow> bool" where
  "duplicate M coll d =
     list_ex (\<lambda>ix. list_ex (\<lambda>d'. list_all (\<lambda>p. keyOf d' p = keyOf d p) ix) coll)
       ([''_id''] # uniqueIndexes M)"

text \<open>
  \<open>document.save()\<close> of a new document: validation, then the pre-save hook, then the
  insert, which a unique index can refuse. It returns the stored document and the
  collection with it.
\<close>

definition save :: "int \<Rightarrow> model \<Rightarrow> document list \<Rightarrow> draft \<Rightarrow> error + (document \<times> document list)" where
  "save now M coll dr =
     (if invalidPaths M dr \<noteq> [] then Inl (ValidationError (invalidPaths M dr))
      else let d = preSave M now (doc dr)
           in if duplicate M coll d then Inl DuplicateKeyError else Inr (d, coll @ [d]))"

text \<open>\<open>Model.create(obj)\<close>\<close>

definition create :: "lib \<Rightarrow> int \<Rightarrow> model \<Rightarrow> document list \<Rightarrow> jsobject \<Rightarrow> error + (document \<times> document list)" where
  "create L now M coll obj = save now M coll (newDoc L now M coll obj)"

text \<open>
  A filter is a list of conditions \<open>path: value\<close>; a value may be \<open>undefined\<close>, which the
  driver sends as \<open>null\<close>. Each value is cast by its path's type and the query is
  rejected when one does not cast. (No handler filters on a path outside its schema.)
\<close>

type_synonym filter = "(string \<times> jsval option) list"

definition castQuery :: "lib \<Rightarrow> schemaPath \<Rightarrow> jsval option \<Rightarrow> bson option" where
  "castQuery L sp v =
     (case v of
        None \<Rightarrow> Some BNull
      | Some x \<Rightarrow> if settersOnQuery L then castPath L sp x else castValue L (ptype sp) x)"

fun castFilter :: "lib \<Rightarrow> schema \<Rightarrow> filter \<Rightarrow> error + (string \<times> bson) list" where
  "castFilter L sch [] = Inr []"
| "castFilter L sch ((p, v) # cs) =
     (case map_of sch p of
        None \<Rightarrow> castFilter L sch cs
      | Some sp \<Rightarrow>
          (case castQuery L sp v of
             None \<Rightarrow> Inl (CastError p)
           | Some b \<Rightarrow>
               (case castFilter L sch cs of
                  Inl err \<Rightarrow> Inl err
                | Inr conds \<Rightarrow> Inr ((p, b) # conds))))"

definition matches :: "(string \<times> bson) list \<Rightarrow> document \<Rightarrow> bool" where
  "matches conds d = list_all (\<lambda>(p, b). keyOf d p = b) conds"

definition findOne :: "lib \<Rightarrow> model \<Rightarrow> document list \<Rightarrow> filter \<Rightarrow> error + document option" where
  "findOne L M coll flt =
     (case castFilter L (withId (schema M)) flt of
        Inl err \<Rightarrow> Inl err
      | Inr conds \<Rightarrow> Inr (List.find (matches conds) coll))"

definition findById :: "lib \<Rightarrow> model \<Rightarrow> document list \<Rightarrow> jsval option \<Rightarrow> error + document option" where
  "findById L M coll i = findOne L M coll [(''_id'', i)]"

fun deleteFirst :: "('a \<Rightarrow> bool) \<Rightarrow> 'a list \<Rightarrow> 'a list" where
  "deleteFirst P [] = []"
| "deleteFirst P (x # xs) = (if P x then xs else x # deleteFirst P xs)"

fun updateFirst :: "('a \<Rightarrow> bool) \<Rightarrow> ('a \<Rightarrow> 'a) \<Rightarrow> 'a list \<Rightarrow> 'a list" where
  "updateFirst P f [] = []"
| "updateFirst P f (x # xs) = (if P x then f x # xs else x # updateFirst P f xs)"

definition findOneAndDelete :: "lib \<Rightarrow> model \<Rightarrow> document list \<Rightarrow> filter \<Rightarrow> error + (document option \<times> document list)" where
  "findOneAndDelete L M coll flt =
     (case castFilter L (withId (schema M)) flt of
        Inl err \<Rightarrow> Inl err
      | Inr conds \<Rightarrow> Inr (List.find (matches conds) coll, deleteFirst (matches conds) coll))"

text \<open>
  An update document is a flat object of field names, all of them set. The values are
  cast by the schema (no validators run on an update), fields the schema does not declare
  are dropped, and the store refuses a change of \<open>_id\<close>.
\<close>

definition castUpdate :: "lib \<Rightarrow> schema \<Rightarrow> jsobject \<Rightarrow> error + (string \<times> bson) list" where
  "castUpdate L sch upd =
     (case filter (\<lambda>(p, sp). case upd p of None \<Rightarrow> False | Some v \<Rightarrow> castPath L sp v = None) sch of
        [] \<Rightarrow>
          Inr (List.map_filter
                 (\<lambda>(p, sp). case upd p of None \<Rightarrow> None | Some v \<Rightarrow> map_option (Pair p) (castPath L sp v))
                 sch)
      | (p, sp) # rest \<Rightarrow> Inl (CastError p))"

definition applySet :: "(string \<times> bson) list \<Rightarrow> document \<Rightarrow> document" where
  "applySet sets d = foldl (\<lambda>d' (p, b). d'(p \<mapsto> b)) d sets"

text \<open>\<open>Model.findOneAndUpdate(filter, update, {new: true})\<close>: it returns the updated document.\<close>

definition findOneAndUpdate :: "lib \<Rightarrow> model \<Rightarrow> document list \<Rightarrow> filter \<Rightarrow> jsobject \<Rightarrow> error + (document option \<times> document list)" where
  "findOneAndUpdate L M coll flt upd =
     (case castFilter L (withId (schema M)) flt of
        Inl err \<Rightarrow> Inl err
      | Inr conds \<Rightarrow>
          (case castUpdate L (withId (schema M)) upd of
             Inl err \<Rightarrow> Inl err
           | Inr sets \<Rightarrow>
               (case List.find (matches conds) coll of
                  None \<Rightarrow> Inr (None, coll)
                | Some d \<Rightarrow>
                    if (case map_of sets ''_id'' of None \<Rightarrow> False | Some b \<Rightarrow> keyOf d ''_id'' \<noteq> b)
                    then Inl ImmutableFieldError
                    else Inr (Some (applySet sets d), updateFirst (matches conds) (applySet sets) coll))))"

section \<open>Models and the store\<close>

definition touch :: "int \<Rightarrow> document \<Rightarrow> document" where
  "touch now d = d(''updatedAt'' \<mapsto> BDate now)"

definition Transaction :: model where
  "Transaction = \<lparr>schema = transactionSchema, uniqueIndexes = [], preSave = touch\<rparr>"

definition BalanceItem :: model where
  "BalanceItem = \<lparr>schema = balanceItemSchema, uniqueIndexes = [], preSave = touch\<rparr>"

definition Category :: model where
  "Category =
     \<lparr>schema = categorySchema, uniqueIndexes = [[''userId'', ''type'', ''name'']],
      preSave = (\<lambda>now d. d)\<rparr>"

text \<open>
  Modelled from the spec: the User model's store-level email uniqueness and the hashing
  of the password when a user is saved (models/User.js is not among the sources).
\<close>

definition hashPassword :: "lib \<Rightarrow> int \<Rightarrow> document \<Rightarrow> document" where
  "hashPassword L now d =
     (case d ''password'' of Some (BStr pw) \<Rightarrow> d(''password'' \<mapsto> BStr (hash L pw)) | _ \<Rightarrow> d)"

definition User :: "lib \<Rightarrow> model" where
  "User L = \<lparr>schema = userSchema, uniqueIndexes = [[''email'']], preSave = hashPassword L\<rparr>"

record store =
  users :: "document list"
  transactions :: "document list"
  balanceItems :: "document list"
  categories :: "document list"

section \<open>Requests and responses\<close>

record request =
  authorization :: "string option"
  params_id :: string
  body :: jsobject

text \<open>The request once the guard has attached \<open>req.userId\<close> and \<open>req.user\<close>.\<close>

record authed = request +
  req_userId :: "jsval option"
  req_user :: document

record response =
  status :: nat
  success :: bool
  message :: string
  data :: "document option"

definition reply :: "nat \<Rightarrow> bool \<Rightarrow> string \<Rightarrow> response" where
  "reply st ok msg = \<lparr>status = st, success = ok, message = msg, data = None\<rparr>"

definition serverError :: response where
  "serverError = reply 500 False ''Terjadi kesalahan pada server''"

section \<open>Authentication middleware\<close>

definition authenticate :: "lib \<Rightarrow> env \<Rightarrow> int \<Rightarrow> store \<Rightarrow> request \<Rightarrow> response + authed" where
  "authenticate L e now s req =
     (case authorization req of
        None \<Rightarrow> Inl (reply 401 False ''Token tidak valid'')
      | Some authHeader \<Rightarrow>
          if authHeader = [] \<or> \<not> startsWith authHeader ''Bearer ''
          then Inl (reply 401 False ''Token tidak valid'')
          else
            let token = index_js (split_js CHR '' '' authHeader) 1;
                decoded = verifyToken L e now token
            in (case decoded of
                  None \<Rightarrow> Inl (reply 401 False ''Token tidak valid'')
                | Some d \<Rightarrow>
                    (case findById L (User L) (users s) (userId d) of
                       Inl err \<Rightarrow> Inl (reply 401 False ''Token tidak valid'')
                     | Inr None \<Rightarrow> Inl (reply 401 False ''User tidak ditemukan'')
                     | Inr (Some user) \<Rightarrow>
                         Inr \<lparr>authorization = authorization req, params_id = params_id req,
                              body = body req, req_userId = userId d, req_user = user\<rparr>)))"

text \<open>A route behind the guard: the handler runs only on what the guard lets through.\<close>

definition protected ::
  "(lib \<Rightarrow> int \<Rightarrow> store \<Rightarrow> authed \<Rightarrow> response \<times> store) \<Rightarrow>
   lib \<Rightarrow> env \<Rightarrow> int \<Rightarrow> store \<Rightarrow> request \<Rightarrow> response \<times> store" where
  "protected handler L e now s req =
     (case authenticate L e now s req of
        Inl res \<Rightarrow> (res, s)
      | Inr a \<Rightarrow> handler L now s a)"

section \<open>Registration\<close>

definition truthy :: "jsval option \<Rightarrow> bool" where
  "truthy v =
     (case v of
        None \<Rightarrow> False
      | Some JNull \<Rightarrow> False
      | Some (JBool b) \<Rightarrow> b
      | Some (JNum n) \<Rightarrow> n \<noteq> 0
      | Some (JStr s) \<Rightarrow> s \<noteq> []
      | Some x \<Rightarrow> True)"

text \<open>\<open>v.length\<close>, and \<open>x < n\<close> for a number \<open>n\<close> (false when \<open>x\<close> is undefined or NaN).\<close>

definition length_js :: "jsval \<Rightarrow> jsval option" where
  "length_js v =
     (case v of
        JStr s \<Rightarrow> Some (JNum (real (length s)))
      | JArr xs \<Rightarrow> Some (JNum (real (length xs)))
      | JObj kvs \<Rightarrow> map_of (rev kvs) ''length''
      | x \<Rightarrow> None)"

definition lt_js :: "lib \<Rightarrow> jsval option \<Rightarrow> real \<Rightarrow> bool" where
  "lt_js L x n =
     (case x of
        None \<Rightarrow> False
      | Some (JNum m) \<Rightarrow> m < n
      | Some v \<Rightarrow> (case toNumber L v of None \<Rightarrow> False | Some m \<Rightarrow> m < n))"

text \<open>\<open>email.toLowerCase()\<close>: only a string has the method.\<close>

definition toLowerCase_js :: "jsval option \<Rightarrow> error + string" where
  "toLowerCase_js v = (case v of Some (JStr s) \<Rightarrow> Inr (toLowerCase s) | x \<Rightarrow> Inl TypeError)"

definition idOf :: "document \<Rightarrow> jsval option" where
  "idOf d = (case d ''_id'' of Some (BId i) \<Rightarrow> Some (JId i) | x \<Rightarrow> None)"

definition defaultIncomeCategories :: "string list" where
  "defaultIncomeCategories = [''Penjualan'', ''Jasa'', ''Komisi'', ''Lainnya'']"

definition defaultExpenseCategories :: "string list" where
  "defaultExpenseCategories = [''Supplier Cost'', ''Transport'', ''Office Expense'', ''Other'']"

text \<open>createDefaultCategories creates the categories one after another; the first failure ends the run (it is caught and logged).\<close>

fun createEach :: "lib \<Rightarrow> int \<Rightarrow> model \<Rightarrow> jsobject list \<Rightarrow> document list \<Rightarrow> document list" where
  "createEach L now M [] coll = coll"
| "createEach L now M (obj # objs) coll =
     (case create L now M coll obj of
        Inl err \<Rightarrow> coll
      | Inr (d, coll') \<Rightarrow> createEach L now M objs coll')"

definition defaultCategory :: "jsval option \<Rightarrow> string \<Rightarrow> string \<Rightarrow> jsobject" where
  "defaultCategory uid ty name =
     [''type'' \<mapsto> JStr ty, ''name'' \<mapsto> JStr name, ''isDefault'' \<mapsto> JBool True](''userId'' := uid)"

definition createDefaultCategories :: "lib \<Rightarrow> int \<Rightarrow> store \<Rightarrow> jsval option \<Rightarrow> store" where
  "createDefaultCategories L now s uid =
     s\<lparr>categories :=
         createEach L now Category
           (map (defaultCategory uid ''income'') defaultIncomeCategories
            @ map (defaultCategory uid ''expense'') defaultExpenseCategories)
           (categories s)\<rparr>"

definition POST_register :: "lib \<Rightarrow> int \<Rightarrow> store \<Rightarrow> request \<Rightarrow> response \<times> store" where
  "POST_register L now s req =
     (let email = body req ''email''; password = body req ''password''
      in if \<not> truthy email \<or> \<not> truthy password
         then (reply 400 False ''Email dan password harus diisi'', s)
         else if lt_js L (case password of None \<Rightarrow> None | Some pw \<Rightarrow> length_js pw) 4
         then (reply 400 False ''Password minimal 4 karakter'', s)
         else (case toLowerCase_js email of
                 Inl err \<Rightarrow> (serverError, s)
               | Inr lower \<Rightarrow>
                   (case findOne L (User L) (users s) [(''email'', Some (JStr lower))] of
                      Inl err \<Rightarrow> (serverError, s)
                    | Inr (Some existingUser) \<Rightarrow> (reply 400 False ''Email sudah terdaftar'', s)
                    | Inr None \<Rightarrow>
                        (let user = newDoc L now (User L) (users s)
                                      ([''email'' \<mapsto> JStr lower](''password'' := password))
                         in case save now (User L) (users s) user of
                              Inl err \<Rightarrow> (serverError, s)
                            | Inr (u, users') \<Rightarrow>
                                (reply 201 True ''Pendaftaran berhasil. Silakan login.'',
                                 createDefaultCategories L now (s\<lparr>users := users'\<rparr>) (idOf u))))))"

section \<open>Transactions\<close>

text \<open>POST /transactions\<close>

definition addTransaction :: "lib \<Rightarrow> int \<Rightarrow> store \<Rightarrow> authed \<Rightarrow> response \<times> store" where
  "addTransaction L now s req =
     (let transactionData = (body req)(''userId'' := req_userId req);
          transaction = newDoc L now Transaction (transactions s) transactionData
      in case save now Transaction (transactions s) transaction of
           Inl err \<Rightarrow> (serverError, s)
         | Inr (t, coll) \<Rightarrow>
             (\<lparr>status = 201, success = True, message = ''Transaksi berhasil ditambahkan'',
               data = Some t\<rparr>,
              s\<lparr>transactions := coll\<rparr>))"

text \<open>PUT /transactions/:id\<close>

definition updateTransaction :: "lib \<Rightarrow> int \<Rightarrow> store \<Rightarrow> authed \<Rightarrow> response \<times> store" where
  "updateTransaction L now s req =
     (case findOneAndUpdate L Transaction (transactions s)
             [(''_id'', Some (JStr (params_id req))), (''userId'', req_userId req)]
             ((body req)(''updatedAt'' \<mapsto> JNum (of_int now))) of
        Inl err \<Rightarrow> (serverError, s)
      | Inr (None, coll) \<Rightarrow>
          (reply 404 False ''Transaksi tidak ditemukan'', s\<lparr>transactions := coll\<rparr>)
      | Inr (Some t, coll) \<Rightarrow>
          (\<lparr>status = 200, success = True, message = ''Transaksi berhasil diupdate'',
            data = Some t\<rparr>,
           s\<lparr>transactions := coll\<rparr>))"

text \<open>DELETE /transactions/:id\<close>

definition deleteTransaction :: "lib \<Rightarrow> int \<Rightarrow> store \<Rightarrow> authed \<Rightarrow> response \<times> store" where
  "deleteTransaction L now s req =
     (case findOneAndDelete L Transaction (transactions s)
             [(''_id'', Some (JStr (params_id req))), (''userId'', req_userId req)] of
        Inl err \<Rightarrow> (serverError, s)
      | Inr (None, coll) \<Rightarrow>
          (reply 404 False ''Transaksi tidak ditemukan'', s\<lparr>transactions := coll\<rparr>)
      | Inr (Some t, coll) \<Rightarrow>
          (reply 200 True ''Transaksi berhasil dihapus'', s\<lparr>transactions := coll\<rparr>))"

section \<open>Balance items\<close>

text \<open>POST /balance-items\<close>

definition addBalanceItem :: "lib \<Rightarrow> int \<Rightarrow> store \<Rightarrow> authed \<Rightarrow> response \<times> store" where
  "addBalanceItem L now s req =
     (let balanceItemData = (body req)(''userId'' := req_userId req);
          balanceItem = newDoc L now BalanceItem (balanceItems s) balanceItemData
      in case save now BalanceItem (balanceItems s) balanceItem of
           Inl err \<Rightarrow> (serverError, s)
         | Inr (b, coll) \<Rightarrow>
             (\<lparr>status = 201, success = True, message = ''Item neraca berhasil ditambahkan'',
               data = Some b\<rparr>,
              s\<lparr>balanceItems := coll\<rparr>))"

section \<open>Categories\<close>

text \<open>POST /categories\<close>

definition addCategory :: "lib \<Rightarrow> int \<Rightarrow> store \<Rightarrow> authed \<Rightarrow> response \<times> store" where
  "addCategory L now s req =
     (let type = body req ''type''; name = body req ''name''
      in if \<not> truthy type \<or> \<not> truthy name
         then (reply 400 False ''Type dan name harus diisi'', s)
         else (case findOne L Category (categories s)
                      [(''userId'', req_userId req), (''type'', type), (''name'', name)] of
                 Inl err \<Rightarrow> (serverError, s)
               | Inr (Some existingCategory) \<Rightarrow> (reply 400 False ''Kategori sudah ada'', s)
               | Inr None \<Rightarrow>
                   (let category = newDoc L now Category (categories s)
                                     ((Map.empty(''type'' := type, ''name'' := name,
                                                 ''isDefault'' \<mapsto> JBool False))
                                      (''userId'' := req_userId req))
                    in case save now Category (categories s) category of
                         Inl err \<Rightarrow> (serverError, s)
                       | Inr (c, coll) \<Rightarrow>
                           (\<lparr>status = 201, success = True,
                             message = ''Kategori berhasil ditambahkan'', data = Some c\<rparr>,
                            s\<lparr>categories := coll\<rparr>))))"

text \<open>DELETE /categories/:id; the filter's \<open>isDefault: false\<close> keeps default categories out of reach.\<close>

definition deleteCategory :: "lib \<Rightarrow> int \<Rightarrow> store \<Rightarrow> authed \<Rightarrow> response \<times> store" where
  "deleteCategory L now s req =
     (case findOneAndDelete L Category (categories s)
             [(''_id'', Some (JStr (params_id req))), (''userId'', req_userId req),
              (''isDefault'', Some (JBool False))] of
        Inl err \<Rightarrow> (serverError, s)
      | Inr (None, coll) \<Rightarrow>
          (reply 404 False ''Kategori tidak ditemukan atau tidak dapat dihapus'',
           s\<lparr>categories := coll\<rparr>)
      | Inr (Some c, coll) \<Rightarrow>
          (reply 200 True ''Kategori berhasil dihapus'', s\<lparr>categories := coll\<rparr>))"

section \<open>Routes\<close>

definition POST_transactions :: "lib \<Rightarrow> env \<Rightarrow> int \<Rightarrow> store \<Rightarrow> request \<Rightarrow> response \<times> store" where
  "POST_transactions = protected addTransaction"

definition PUT_transactions :: "lib \<Rightarrow> env \<Rightarrow> int \<Rightarrow> store \<Rightarrow> request \<Rightarrow> response \<times> store" where
  "PUT_transactions = protected updateTransaction"

definition DELETE_transactions :: "lib \<Rightarrow> env \<Rightarrow> int \<Rightarrow> store \<Rightarrow> request \<Rightarrow> response \<times> store" where
  "DELETE_transactions = protected deleteTransaction"

definition POST_balance_items :: "lib \<Rightarrow> env \<Rightarrow> int \<Rightarrow> store \<Rightarrow> request \<Rightarrow> response \<times> store" where
  "POST_balance_items = protected addBalanceItem"

definition POST_categories :: "lib \<Rightarrow> env \<Rightarrow> int \<Rightarrow> store \<Rightarrow> request \<Rightarrow> response \<times> store" where
  "POST_categories = protected addCategory"

definition DELETE_categories :: "lib \<Rightarrow> env \<Rightarrow> int \<Rightarrow> store \<Rightarrow> request \<Rightarrow> response \<times> store" where
  "DELETE_categories = protected deleteCategory"

section \<open>Classes of input named by the specification\<close>

text \<open>JSON data: a value with no ObjectId in it.\<close>

fun isJSON :: "jsval \<Rightarrow> bool" where
  "isJSON (JArr xs) = list_all isJSON xs"
| "isJSON (JObj kvs) = list_all (\<lambda>kv. isJSON (snd kv)) kvs"
| "isJSON (JId i) = False"
| "isJSON v = True"

text \<open>A token that does not parse; one whose signature is not its payload's under the
  server's secret; one whose expiry has been reached.\<close>

definition malformed :: "lib \<Rightarrow> string \<Rightarrow> bool" where
  "malformed L t = (decodeJws L t = None)"

definition wronglySigned :: "lib \<Rightarrow> env \<Rightarrow> string \<Rightarrow> bool" where
  "wronglySigned L e t =
     (case decodeJws L t of
        None \<Rightarrow> False
      | Some (c, sg) \<Rightarrow> (case JWT_SECRET e of None \<Rightarrow> True | Some k \<Rightarrow> sg \<noteq> hmac L k c))"

definition expired :: "lib \<Rightarrow> int \<Rightarrow> string \<Rightarrow> bool" where
  "expired L now t =
     (case decodeJws L t of
        None \<Rightarrow> False
      | Some (c, sg) \<Rightarrow> (case expiry c of None \<Rightarrow> False | Some x \<Rightarrow> x \<le> now div 1000))"

text \<open>The two rejections of the guard.\<close>

definition invalidToken :: response where
  "invalidToken = reply 401 False ''Token tidak valid''"

definition userNotFound :: response where
  "userNotFound = reply 401 False ''User tidak ditemukan''"

text \<open>
  The document identifier that a userId (of a token, of a request) denotes: \<open>null\<close> when
  it is undefined, none when it does not read as an ObjectId.
\<close>

definition idOfClaim :: "lib \<Rightarrow> jsval option \<Rightarrow> bson option" where
  "idOfClaim L v = (case v of None \<Rightarrow> Some BNull | Some x \<Rightarrow> castValue L TObjectId x)"



text \<open>The identifier of the authenticated user.\<close>

definition caller :: "authed \<Rightarrow> bson" where
  "caller a = keyOf (req_user a) ''_id''"


definition categoryNotFound :: response where
  "categoryNotFound = reply 404 False ''Kategori tidak ditemukan atau tidak dapat dihapus''"

text \<open>A category flagged as a default one.\<close>

definition flaggedDefault :: "document \<Rightarrow> bool" where
  "flaggedDefault c = (c ''isDefault'' = Some (BBool True))"

text \<open>
  The path identifier names a stored category, and what it names is flagged default.
\<close>

definition targetsDefault :: "lib \<Rightarrow> string \<Rightarrow> document list \<Rightarrow> bool" where
  "targetsDefault L pid coll =
     (case parseObjectId L pid of
        None \<Rightarrow> False
      | Some i \<Rightarrow>
          list_ex (\<lambda>c. keyOf c ''_id'' = BId i) coll
          \<and> list_all (\<lambda>c. if keyOf c ''_id'' = BId i then flaggedDefault c else True) coll)"

text \<open>The endpoints that write to the store, and the application as a function of them.\<close>

datatype endpoint =
    Register
  | AddTransaction
  | UpdateTransaction
  | DeleteTransaction
  | AddBalanceItem
  | AddCategory
  | DeleteCategory

fun app :: "lib \<Rightarrow> env \<Rightarrow> int \<Rightarrow> endpoint \<Rightarrow> store \<Rightarrow> request \<Rightarrow> response \<times> store" where
  "app L e now Register = POST_register L now"
| "app L e now AddTransaction = POST_transactions L e now"
| "app L e now UpdateTransaction = PUT_transactions L e now"
| "app L e now DeleteTransaction = DELETE_transactions L e now"
| "app L e now AddBalanceItem = POST_balance_items L e now"
| "app L e now AddCategory = POST_categories L e now"
| "app L e now DeleteCategory = DELETE_categories L e now"


text \<open>A password that passes the registration handler's checks: present and not shorter than 4.\<close>

definition acceptablePassword :: "lib \<Rightarrow> jsval option \<Rightarrow> bool" where
  "acceptablePassword L pw =
     (truthy pw \<and> \<not> lt_js L (case pw of None \<Rightarrow> None | Some x \<Rightarrow> length_js x) 4)"

text \<open>The answer to a registration under an email that is taken.\<close>

definition duplicateEmail :: response where
  "duplicateEmail = reply 400 False ''Email sudah terdaftar''"

section \<open>A concrete instance\<close>

text \<open>
  An instance of the library record on which the model runs: ObjectIds are the strings of
  24 hexadecimal digits, cross-type casts are refused, and a token is written
  \<open>userId.iat.exp.signature\<close> with the numbers in decimal.
\<close>

definition hexDigit :: "char \<Rightarrow> nat option" where
  "hexDigit c =
     (let n = (of_char c :: nat)
      in if 48 \<le> n \<and> n \<le> 57 then Some (n - 48)
         else if 97 \<le> n \<and> n \<le> 102 then Some (n - 87)
         else if 65 \<le> n \<and> n \<le> 70 then Some (n - 55)
         else None)"

definition hexObjectId :: "string \<Rightarrow> objectId option" where
  "hexObjectId s =
     (if length s = 24 \<and> list_all (\<lambda>c. hexDigit c \<noteq> None) s
      then Some (foldl (\<lambda>n c. 16 * n + (case hexDigit c of None \<Rightarrow> 0 | Some d \<Rightarrow> d)) 0 s)
      else None)"

definition hexString :: "objectId \<Rightarrow> string" where
  "hexString i = map (\<lambda>k. ''0123456789abcdef'' ! ((i div 16 ^ (23 - k)) mod 16)) [0..<24]"

function decimal :: "nat \<Rightarrow> string" where
  "decimal n =
     (if n < 10 then [''0123456789'' ! n]
      else decimal (n div 10) @ [''0123456789'' ! (n mod 10)])"
  by pat_completeness auto
termination
  by (relation "measure id") auto

definition digit :: "char \<Rightarrow> nat option" where
  "digit c = (let n = (of_char c :: nat) in if 48 \<le> n \<and> n \<le> 57 then Some (n - 48) else None)"

definition number :: "string \<Rightarrow> nat option" where
  "number s =
     (if s \<noteq> [] \<and> list_all (\<lambda>c. digit c \<noteq> None) s
      then Some (foldl (\<lambda>n c. 10 * n + (case digit c of None \<Rightarrow> 0 | Some d \<Rightarrow> d)) 0 s)
      else None)"

definition demoEncode :: "claims \<Rightarrow> string \<Rightarrow> string" where
  "demoEncode c sg =
     (case userId c of Some (JStr u) \<Rightarrow> u | x \<Rightarrow> [])
     @ ''.'' @ decimal (nat (iat c))
     @ ''.'' @ (case expiry c of None \<Rightarrow> [] | Some x \<Rightarrow> decimal (nat x))
     @ ''.'' @ sg"

definition demoDecode :: "string \<Rightarrow> (claims \<times> string) option" where
  "demoDecode t =
     (case split_js CHR ''.'' t of
        [u, i, x, sg] \<Rightarrow>
          (case (number i, number x) of
             (Some i', Some x') \<Rightarrow>
               Some (\<lparr>userId = Some (JStr u), iat = int i', expiry = Some (int x')\<rparr>, sg)
           | other \<Rightarrow> None)
      | parts \<Rightarrow> None)"

definition demoHmac :: "string \<Rightarrow> claims \<Rightarrow> string" where
  "demoHmac k c =
     ''hs256-'' @ k @ ''-'' @ (case userId c of Some (JStr u) \<Rightarrow> u | x \<Rightarrow> [])
     @ ''-'' @ decimal (nat (iat c))"

definition demoLib :: lib where
  "demoLib =
     \<lparr>parseObjectId = hexObjectId,
      toHexString = hexString,
      coerce = (\<lambda>T v. None),
      settersOnQuery = True,
      toNumber = (\<lambda>v. None),
      hash = (\<lambda>pw. ''bcrypt-'' @ pw),
      timespan = map_of [(''7d'', 604800), (''1h'', 3600)],
      encodeJws = demoEncode,
      decodeJws = demoDecode,
      hmac = demoHmac\<rparr>"

definition demoEnv :: env where
  "demoEnv = \<lparr>JWT_SECRET = Some ''s3cret'', JWT_EXPIRES_IN = None\<rparr>"

text \<open>Two users, Alice (a1) and Bob (b2); Alice owns one transaction and two categories.\<close>

definition alice :: document where
  "alice = [''_id'' \<mapsto> BId 161, ''email'' \<mapsto> BStr ''alice@x.com'',
            ''password'' \<mapsto> BStr ''bcrypt-abcd'', ''createdAt'' \<mapsto> BDate 1600000000000]"

definition bob :: document where
  "bob = [''_id'' \<mapsto> BId 178, ''email'' \<mapsto> BStr ''bob@x.com'',
          ''password'' \<mapsto> BStr ''bcrypt-efgh'', ''createdAt'' \<mapsto> BDate 1600000000000]"

definition aliceSale :: document where
  "aliceSale =
     [''_id'' \<mapsto> BId 1, ''userId'' \<mapsto> BId 161, ''type'' \<mapsto> BStr ''income'',
      ''date'' \<mapsto> BDate 1690000000000, ''category'' \<mapsto> BStr ''Penjualan'',
      ''description'' \<mapsto> BStr ''order 17'', ''amount'' \<mapsto> BNum 250,
      ''customerName'' \<mapsto> BStr ''Toko Maju'', ''invoiceNumber'' \<mapsto> BStr [],
      ''createdAt'' \<mapsto> BDate 1690000000000, ''updatedAt'' \<mapsto> BDate 1690000000000]"

definition alicePenjualan :: document where
  "alicePenjualan =
     [''_id'' \<mapsto> BId 2, ''userId'' \<mapsto> BId 161, ''type'' \<mapsto> BStr ''income'',
      ''name'' \<mapsto> BStr ''Penjualan'', ''isDefault'' \<mapsto> BBool True,
      ''createdAt'' \<mapsto> BDate 1600000000000]"

definition aliceSewa :: document where
  "aliceSewa =
     [''_id'' \<mapsto> BId 3, ''userId'' \<mapsto> BId 161, ''type'' \<mapsto> BStr ''expense'',
      ''name'' \<mapsto> BStr ''Sewa'', ''isDefault'' \<mapsto> BBool False,
      ''createdAt'' \<mapsto> BDate 1650000000000]"

definition demoStore :: store where
  "demoStore =
     \<lparr>users = [alice, bob], transactions = [aliceSale], balanceItems = [],
      categories = [alicePenjualan, aliceSewa]\<rparr>"

definition demoNow :: int where
  "demoNow = 1700000000000"

text \<open>The identifiers of Alice and Bob as a token carries them, and one that no user has.\<close>

definition aliceId :: string where
  "aliceId = ''0000000000000000000000a1''"

definition bobId :: string where
  "bobId = ''0000000000000000000000b2''"

definition carolId :: string where
  "carolId = ''0000000000000000000000c3''"

text \<open>The Authorization header of a user: Bearer and a token issued now.\<close>

definition bearer :: "string \<Rightarrow> string option" where
  "bearer uid =
     (case generateToken demoLib demoEnv demoNow (Some (JStr uid)) of
        Inl err \<Rightarrow> None
      | Inr t \<Rightarrow> Some (''Bearer '' @ t))"


text \<open>The identifiers of Alice's transaction and of her own category, as a path carries them.\<close>

definition saleId :: string where
  "saleId = ''000000000000000000000001''"


text \<open>Alice updates her transaction with a body that names Bob as the owner.\<close>

definition reassign :: request where
  "reassign = \<lparr>authorization = bearer aliceId, params_id = saleId, body = [''userId'' \<mapsto> JStr bobId]\<rparr>"



text \<open>The identifier of Alice's default category.\<close>

definition penjualanId :: string where
  "penjualanId = ''000000000000000000000002''"



text \<open>Two registrations whose emails differ by case.\<close>

definition registerUpper :: request where
  "registerUpper =
     \<lparr>authorization = None, params_id = [],
      body = [''email'' \<mapsto> JStr ''A@B.com'', ''password'' \<mapsto> JStr ''abcd'']\<rparr>"

definition registerLower :: request where
  "registerLower =
     \<lparr>authorization = None, params_id = [],
      body = [''email'' \<mapsto> JStr ''a@b.com'', ''password'' \<mapsto> JStr ''wxyz'']\<rparr>"

section \<open>Properties\<close>

lemmas demo_defs = demoLib_def demoEnv_def demoNow_def demoEncode_def demoDecode_def demoHmac_def
  number_def digit_def hexObjectId_def hexDigit_def aliceId_def bobId_def

subsection \<open>Token service\<close>

lemma toJSON_isJSON: "isJSON v \<Longrightarrow> toJSON L v = v"
proof (induction v)
  case (JArr xs)
  then show ?case by (simp add: list_all_iff map_idI)
next
  case (JObj kvs)
  have "map (map_prod id (toJSON L)) kvs = kvs"
  proof (rule map_idI)
    fix kv assume kv: "kv \<in> set kvs"
    obtain k v where [simp]: "kv = (k, v)" by (cases kv)
    from kv JObj.prems have "isJSON v" by (auto simp: list_all_iff)
    moreover from kv have "v \<in> Basic_BNFs.snds kv" by simp
    ultimately have "toJSON L v = v" using JObj.IH kv by (auto simp del: \<open>kv = (k, v)\<close>)
    then show "map_prod id (toJSON L) kv = kv" by simp
  qed
  then show ?case by simp
qed simp_all

text \<open>
  C5. With a secret configured and a positive life time, and a serialiser whose output
  the parser reads back, the token that generateToken issues for a userId verifies at the
  same clock, and the claims it yields carry that userId (in its JSON form: JSON data
  itself, an ObjectId as its hexadecimal string).
\<close>

theorem generateToken_verifyToken_roundtrip:
  assumes "JWT_SECRET e = Some k" and "k \<noteq> []"
    and "timespan L (expiresIn e) = Some ttl" and "0 < ttl"
    and "c = \<lparr>userId = Some (toJSON L uid), iat = now div 1000, expiry = Some (now div 1000 + ttl)\<rparr>"
    and "encodeJws L c (hmac L k c) \<noteq> []"
    and "decodeJws L (encodeJws L c (hmac L k c)) = Some (c, hmac L k c)"
  shows "\<exists>tok d. generateToken L e now (Some uid) = Inr tok
           \<and> verifyToken L e now (Some tok) = Some d
           \<and> userId d = Some (toJSON L uid)
           \<and> (isJSON uid \<longrightarrow> userId d = Some uid)"
proof -
  have g: "generateToken L e now (Some uid) = Inr (encodeJws L c (hmac L k c))"
    using assms(1-5) by (simp add: generateToken_def jwt_sign_def Let_def)
  have v: "verifyToken L e now (Some (encodeJws L c (hmac L k c))) = Some c"
    using assms by (simp add: verifyToken_def jwt_verify_def)
  have u: "userId c = Some (toJSON L uid)" using assms(5) by simp
  show ?thesis using g v u by (auto simp: toJSON_isJSON)
qed

theorem generateToken_verifyToken_roundtrip_witness:
  "\<exists>tok d. generateToken demoLib demoEnv demoNow (Some (JStr aliceId)) = Inr tok
           \<and> verifyToken demoLib demoEnv demoNow (Some tok) = Some d
           \<and> userId d = Some (JStr aliceId)"
  using generateToken_verifyToken_roundtrip [of demoEnv "''s3cret''" demoLib 604800
      "\<lparr>userId = Some (JStr aliceId), iat = 1700000000, expiry = Some 1700604800\<rparr>"
      "JStr aliceId" demoNow]
  by (simp add: expiresIn_def demo_defs)

text \<open>
  C6. verifyToken returns null whenever jwt.verify throws, whatever the error; in
  particular on a token that is malformed, wrongly signed, or whose expiry has been
  reached.
\<close>

theorem verifyToken_total_None:
  "(jwt_verify L now tok (JWT_SECRET e) = Inl err \<longrightarrow> verifyToken L e now tok = None)
   \<and> (malformed L t \<or> wronglySigned L e t \<or> expired L now t
        \<longrightarrow> verifyToken L e now (Some t) = None)"
  by (auto simp: verifyToken_def jwt_verify_def malformed_def wronglySigned_def expired_def
      split: option.splits sum.splits)

theorem verifyToken_total_None_witness:
  "malformed demoLib ''not-a-token'' \<and> verifyToken demoLib demoEnv demoNow (Some ''not-a-token'') = None
   \<and> wronglySigned demoLib demoEnv ''0000000000000000000000a1.1700000000.1700604800.forged''
   \<and> verifyToken demoLib demoEnv demoNow
        (Some ''0000000000000000000000a1.1700000000.1700604800.forged'') = None
   \<and> expired demoLib (demoNow + 604800000)
        ''0000000000000000000000a1.1700000000.1700604800.hs256-s3cret-0000000000000000000000a1-1700000000''
   \<and> verifyToken demoLib demoEnv (demoNow + 604800000)
        (Some ''0000000000000000000000a1.1700000000.1700604800.hs256-s3cret-0000000000000000000000a1-1700000000'') = None"
proof -
  have m: "malformed demoLib ''not-a-token''"
    by (simp add: malformed_def demo_defs)
  have w: "wronglySigned demoLib demoEnv ''0000000000000000000000a1.1700000000.1700604800.forged''"
    by (simp add: wronglySigned_def demo_defs)
  have x: "expired demoLib (demoNow + 604800000)
        ''0000000000000000000000a1.1700000000.1700604800.hs256-s3cret-0000000000000000000000a1-1700000000''"
    by (simp add: expired_def demo_defs)
  show ?thesis
    using m w x
      verifyToken_total_None [of demoLib demoNow None demoEnv TypeError "''not-a-token''"]
      verifyToken_total_None [of demoLib demoNow None demoEnv TypeError
        "''0000000000000000000000a1.1700000000.1700604800.forged''"]
      verifyToken_total_None [of demoLib "demoNow + 604800000" None demoEnv TypeError
        "''0000000000000000000000a1.1700000000.1700604800.hs256-s3cret-0000000000000000000000a1-1700000000''"]
    by blast
qed

subsection \<open>Authentication middleware\<close>

lemma castPath_no_trim: "\<not> trim sp \<Longrightarrow> castPath L sp v = castValue L (ptype sp) v"
  by (auto simp: castPath_def split: option.splits bson.splits)

lemma castQuery_id:
  "castQuery L ((path TObjectId)\<lparr>required := r\<rparr>) v = idOfClaim L v"
  by (simp add: castQuery_def idOfClaim_def castPath_no_trim path_def split: option.splits)

lemma findById_eq:
  "findById L M coll v =
     (case idOfClaim L v of
        None \<Rightarrow> Inl (CastError ''_id'')
      | Some i \<Rightarrow> Inr (List.find (\<lambda>u. keyOf u ''_id'' = i) coll))"
proof -
  have m: "\<And>i. matches [(''_id'', i)] = (\<lambda>u. keyOf u ''_id'' = i)"
    by (rule ext) (simp add: matches_def)
  show ?thesis
    by (simp add: findById_def findOne_def withId_def castQuery_id m split: option.splits)
qed

text \<open>
  C4 (amended). The guard rejects a request with no Authorization header or one that
  does not start with the Bearer scheme as an invalid token (401); it rejects a token
  that verifyToken does not accept as an invalid token; it rejects a verified token whose
  userId does not read as a document identifier as an invalid token (the lookup's
  CastError is caught); it rejects a verified token whose userId reads as an identifier
  that no stored user has as user-not-found (401); otherwise it attaches the token's
  userId and the user it found to the request and lets it through.
\<close>

theorem authenticate_contract:
  "(authorization req = None \<longrightarrow> authenticate L e now s req = Inl invalidToken)
   \<and> (authorization req = Some h \<and> \<not> startsWith h ''Bearer ''
        \<longrightarrow> authenticate L e now s req = Inl invalidToken)
   \<and> (authorization req = Some h \<and> startsWith h ''Bearer ''
        \<and> verifyToken L e now (index_js (split_js CHR '' '' h) 1) = None
        \<longrightarrow> authenticate L e now s req = Inl invalidToken)
   \<and> (authorization req = Some h \<and> startsWith h ''Bearer ''
        \<and> verifyToken L e now (index_js (split_js CHR '' '' h) 1) = Some d
        \<and> idOfClaim L (userId d) = None
        \<longrightarrow> authenticate L e now s req = Inl invalidToken)
   \<and> (authorization req = Some h \<and> startsWith h ''Bearer ''
        \<and> verifyToken L e now (index_js (split_js CHR '' '' h) 1) = Some d
        \<and> idOfClaim L (userId d) = Some i
        \<and> List.find (\<lambda>u. keyOf u ''_id'' = i) (users s) = None
        \<longrightarrow> authenticate L e now s req = Inl userNotFound)
   \<and> (authorization req = Some h \<and> startsWith h ''Bearer ''
        \<and> verifyToken L e now (index_js (split_js CHR '' '' h) 1) = Some d
        \<and> idOfClaim L (userId d) = Some i
        \<and> List.find (\<lambda>u. keyOf u ''_id'' = i) (users s) = Some usr
        \<longrightarrow> authenticate L e now s req =
              Inr \<lparr>authorization = authorization req, params_id = params_id req,
                   body = body req, req_userId = userId d, req_user = usr\<rparr>)"
  by (auto simp: authenticate_def findById_eq invalidToken_def userNotFound_def Let_def startsWith_def)

lemma bearer_alice: "bearer aliceId = Some ''Bearer 0000000000000000000000a1.1700000000.1700604800.hs256-s3cret-0000000000000000000000a1-1700000000''"
  by (simp add: bearer_def generateToken_def jwt_sign_def expiresIn_def demo_defs)

lemma bearer_bob: "bearer bobId = Some ''Bearer 0000000000000000000000b2.1700000000.1700604800.hs256-s3cret-0000000000000000000000b2-1700000000''"
  by (simp add: bearer_def generateToken_def jwt_sign_def expiresIn_def demo_defs)

lemma bearer_abc: "bearer ''abc'' = Some ''Bearer abc.1700000000.1700604800.hs256-s3cret-abc-1700000000''"
  by (simp add: bearer_def generateToken_def jwt_sign_def expiresIn_def demo_defs)

lemma verify_alice:
  "verifyToken demoLib demoEnv demoNow
     (Some ''0000000000000000000000a1.1700000000.1700604800.hs256-s3cret-0000000000000000000000a1-1700000000'')
   = Some \<lparr>userId = Some (JStr aliceId), iat = 1700000000, expiry = Some 1700604800\<rparr>"
  by (simp add: verifyToken_def jwt_verify_def demo_defs)

lemma verify_bob:
  "verifyToken demoLib demoEnv demoNow
     (Some ''0000000000000000000000b2.1700000000.1700604800.hs256-s3cret-0000000000000000000000b2-1700000000'')
   = Some \<lparr>userId = Some (JStr bobId), iat = 1700000000, expiry = Some 1700604800\<rparr>"
  by (simp add: verifyToken_def jwt_verify_def demo_defs)

lemma verify_abc:
  "verifyToken demoLib demoEnv demoNow
     (Some ''abc.1700000000.1700604800.hs256-s3cret-abc-1700000000'')
   = Some \<lparr>userId = Some (JStr ''abc''), iat = 1700000000, expiry = Some 1700604800\<rparr>"
  by (simp add: verifyToken_def jwt_verify_def demo_defs)

lemma idOfClaim_alice: "idOfClaim demoLib (Some (JStr aliceId)) = Some (BId 161)"
  by (simp add: idOfClaim_def demo_defs)

lemma idOfClaim_bob: "idOfClaim demoLib (Some (JStr bobId)) = Some (BId 178)"
  by (simp add: idOfClaim_def demo_defs)

lemma idOfClaim_abc: "idOfClaim demoLib (Some (JStr ''abc'')) = None"
  by (simp add: idOfClaim_def demo_defs)

lemma authenticate_alice:
  "authenticate demoLib demoEnv demoNow demoStore \<lparr>authorization = bearer aliceId, params_id = pid, body = b\<rparr>
   = Inr \<lparr>authorization = bearer aliceId, params_id = pid, body = b,
          req_userId = Some (JStr aliceId), req_user = alice\<rparr>"
  by (simp add: authenticate_def findById_eq Let_def startsWith_def bearer_alice verify_alice
      idOfClaim_alice demoStore_def keyOf_def alice_def)

lemma authenticate_bob:
  "authenticate demoLib demoEnv demoNow demoStore \<lparr>authorization = bearer bobId, params_id = pid, body = b\<rparr>
   = Inr \<lparr>authorization = bearer bobId, params_id = pid, body = b,
          req_userId = Some (JStr bobId), req_user = bob\<rparr>"
  by (simp add: authenticate_def findById_eq Let_def startsWith_def bearer_bob verify_bob
      idOfClaim_bob demoStore_def keyOf_def alice_def bob_def)

lemma bearer_carol: "bearer carolId = Some ''Bearer 0000000000000000000000c3.1700000000.1700604800.hs256-s3cret-0000000000000000000000c3-1700000000''"
  by (simp add: bearer_def generateToken_def jwt_sign_def expiresIn_def demo_defs carolId_def)

lemma verify_carol:
  "verifyToken demoLib demoEnv demoNow
     (Some ''0000000000000000000000c3.1700000000.1700604800.hs256-s3cret-0000000000000000000000c3-1700000000'')
   = Some \<lparr>userId = Some (JStr carolId), iat = 1700000000, expiry = Some 1700604800\<rparr>"
  by (simp add: verifyToken_def jwt_verify_def demo_defs carolId_def)

lemma idOfClaim_carol: "idOfClaim demoLib (Some (JStr carolId)) = Some (BId 195)"
  by (simp add: idOfClaim_def demo_defs carolId_def)

theorem authenticate_contract_witness:
  "authenticate demoLib demoEnv demoNow demoStore \<lparr>authorization = None, params_id = [], body = Map.empty\<rparr>
     = Inl invalidToken
   \<and> authenticate demoLib demoEnv demoNow demoStore
        \<lparr>authorization = Some ''Basic YWxpY2U6YWJjZA=='', params_id = [], body = Map.empty\<rparr>
     = Inl invalidToken
   \<and> authenticate demoLib demoEnv demoNow demoStore
        \<lparr>authorization = Some ''Bearer not-a-token'', params_id = [], body = Map.empty\<rparr>
     = Inl invalidToken
   \<and> authenticate demoLib demoEnv demoNow demoStore
        \<lparr>authorization = bearer carolId, params_id = [], body = Map.empty\<rparr>
     = Inl userNotFound
   \<and> authenticate demoLib demoEnv demoNow demoStore
        \<lparr>authorization = bearer aliceId, params_id = [], body = Map.empty\<rparr>
     = Inr \<lparr>authorization = bearer aliceId, params_id = [], body = Map.empty,
            req_userId = Some (JStr aliceId), req_user = alice\<rparr>"
proof -
  have v: "verifyToken demoLib demoEnv demoNow
             (index_js (split_js CHR '' '' ''Bearer not-a-token'') 1) = None"
    by (simp add: verifyToken_def jwt_verify_def demo_defs)
  have c: "List.find (\<lambda>u. keyOf u ''_id'' = BId 195) (users demoStore) = None"
    by (simp add: demoStore_def keyOf_def alice_def bob_def)
  have a: "List.find (\<lambda>u. keyOf u ''_id'' = BId 161) (users demoStore) = Some alice"
    by (simp add: demoStore_def keyOf_def alice_def)
  show ?thesis
    using
      authenticate_contract [of "\<lparr>authorization = None, params_id = [], body = Map.empty\<rparr>"
        demoLib demoEnv demoNow demoStore]
      authenticate_contract [of "\<lparr>authorization = Some ''Basic YWxpY2U6YWJjZA=='', params_id = [], body = Map.empty\<rparr>"
        demoLib demoEnv demoNow demoStore "''Basic YWxpY2U6YWJjZA==''"]
      authenticate_contract [of "\<lparr>authorization = Some ''Bearer not-a-token'', params_id = [], body = Map.empty\<rparr>"
        demoLib demoEnv demoNow demoStore "''Bearer not-a-token''"]
      authenticate_contract [of "\<lparr>authorization = bearer carolId, params_id = [], body = Map.empty\<rparr>"
        demoLib demoEnv demoNow demoStore "the (bearer carolId)"
        "\<lparr>userId = Some (JStr carolId), iat = 1700000000, expiry = Some 1700604800\<rparr>" "BId 195"]
      authenticate_contract [of "\<lparr>authorization = bearer aliceId, params_id = [], body = Map.empty\<rparr>"
        demoLib demoEnv demoNow demoStore "the (bearer aliceId)"
        "\<lparr>userId = Some (JStr aliceId), iat = 1700000000, expiry = Some 1700604800\<rparr>" "BId 161" alice]
      v c a
    by (simp add: bearer_alice bearer_carol verify_alice verify_carol idOfClaim_alice idOfClaim_carol
        startsWith_def)
qed

text \<open>
  C4 as stated fails: a token that verifies and whose userId, abc, matches no stored user
  is rejected as an invalid token, not as user-not-found.
\<close>

theorem authenticate_contract_counterexample:
  "verifyToken demoLib demoEnv demoNow
     (index_js (split_js CHR '' '' (the (bearer ''abc''))) 1)
     = Some \<lparr>userId = Some (JStr ''abc''), iat = 1700000000, expiry = Some 1700604800\<rparr>
   \<and> authenticate demoLib demoEnv demoNow demoStore
        \<lparr>authorization = bearer ''abc'', params_id = [], body = Map.empty\<rparr>
      = Inl (reply 401 False ''Token tidak valid'')
   \<and> authenticate demoLib demoEnv demoNow demoStore
        \<lparr>authorization = bearer ''abc'', params_id = [], body = Map.empty\<rparr>
      \<noteq> Inl (reply 401 False ''User tidak ditemukan'')"
  by (simp add: authenticate_def findById_eq Let_def startsWith_def bearer_abc verify_abc
      idOfClaim_abc reply_def)

subsection \<open>Creating records\<close>

lemma save_Inr:
  assumes "save now M coll dr = Inr (d, coll')"
  shows "invalidPaths M dr = []" and "d = preSave M now (doc dr)" and "coll' = coll @ [d]"
  using assms by (auto simp: save_def Let_def split: if_splits)

lemma save_Inl: "invalidPaths M dr \<noteq> [] \<Longrightarrow> \<exists>err. save now M coll dr = Inl err"
  by (simp add: save_def)

lemma invalidPaths_Nil:
  assumes "invalidPaths M dr = []" and "(p, sp) \<in> set (schema M)"
  shows "validPath sp (doc dr) (doc dr p)"
proof -
  from assms(1) have "filter (\<lambda>(p, sp). \<not> validPath sp (doc dr) (doc dr p)) (withId (schema M)) = []"
    by (simp add: invalidPaths_def)
  then have "\<forall>x \<in> set (withId (schema M)). \<not> (case x of (p, sp) \<Rightarrow> \<not> validPath sp (doc dr) (doc dr p))"
    by (simp add: filter_empty_conv)
  with assms(2) show ?thesis by (auto simp: withId_def)
qed

lemma validPath_required:
  "validPath sp this v \<Longrightarrow> required sp = Some r \<Longrightarrow> r this \<Longrightarrow> present v"
  by (simp add: validPath_def)

lemma newDoc_path:
  "p \<noteq> ''_id'' \<Longrightarrow> map_of (schema M) p = Some sp
     \<Longrightarrow> doc (newDoc L now M coll obj) p = initPath L now sp (obj p)"
  by (simp add: newDoc_def withId_def)

lemma initPath_userId:
  "initPath L now ((path TObjectId)\<lparr>required := r\<rparr>) v = (case v of None \<Rightarrow> None | Some x \<Rightarrow> castValue L TObjectId x)"
  by (simp add: initPath_def path_def castPath_no_trim split: option.splits)

lemma present_idOfClaim:
  "present (case v of None \<Rightarrow> None | Some x \<Rightarrow> castValue L TObjectId x)
     \<Longrightarrow> (case v of None \<Rightarrow> None | Some x \<Rightarrow> castValue L TObjectId x) = idOfClaim L v"
  by (cases v) (simp_all add: present_def idOfClaim_def)

text \<open>
  A saved document of a model whose schema requires an ObjectId userId carries the cast
  of the userId it was built with.
\<close>

lemma saved_userId:
  assumes sv: "save now M coll (newDoc L now M coll obj) = Inr (d, coll')"
    and sch: "map_of (schema M) ''userId'' = Some ((path TObjectId)\<lparr>required := always\<rparr>)"
    and pre: "\<And>x. preSave M now x ''userId'' = x ''userId''"
  shows "d ''userId'' = idOfClaim L (obj ''userId'') \<and> present (d ''userId'') \<and> coll' = coll @ [d]"
proof -
  let ?dr = "newDoc L now M coll obj"
  have inv: "invalidPaths M ?dr = []" and d: "d = preSave M now (doc ?dr)" and c: "coll' = coll @ [d]"
    using save_Inr [OF sv] by auto
  have mem: "(''userId'', (path TObjectId)\<lparr>required := always\<rparr>) \<in> set (schema M)"
    using sch by (rule map_of_SomeD)
  have v: "doc ?dr ''userId'' = (case obj ''userId'' of None \<Rightarrow> None | Some x \<Rightarrow> castValue L TObjectId x)"
    using newDoc_path [OF _ sch, of L now coll obj] by (simp add: initPath_userId)
  have "validPath ((path TObjectId)\<lparr>required := always\<rparr>) (doc ?dr) (doc ?dr ''userId'')"
    using invalidPaths_Nil [OF inv mem] .
  then have p: "present (doc ?dr ''userId'')"
    by (simp add: validPath_def always_def)
  have "doc ?dr ''userId'' = idOfClaim L (obj ''userId'')"
    using p present_idOfClaim [of L "obj ''userId''"] by (simp add: v)
  with p d c pre show ?thesis by simp
qed

lemma authenticate_Inr:
  assumes "authenticate L e now s req = Inr a"
  shows "\<exists>i. idOfClaim L (req_userId a) = Some i \<and> keyOf (req_user a) ''_id'' = i"
    and "req_user a \<in> set (users s)"
    and "body a = body req" and "params_id a = params_id req"
  using assms
  by (auto simp: authenticate_def findById_eq Let_def find_Some_iff
      split: option.splits if_splits sum.splits)


lemma addTransaction_cases:
  assumes "addTransaction L now s a = (res, s')"
  shows "(res = serverError \<and> s' = s)
       \<or> (\<exists>d. s' = s\<lparr>transactions := transactions s @ [d]\<rparr> \<and> status res = 201 \<and> data res = Some d
             \<and> d ''userId'' = idOfClaim L (req_userId a) \<and> present (d ''userId''))"
proof (cases "save now Transaction (transactions s)
                (newDoc L now Transaction (transactions s) ((body a)(''userId'' := req_userId a)))")
  case (Inl err)
  with assms show ?thesis by (auto simp: addTransaction_def Let_def)
next
  case (Inr r)
  obtain d coll' where r: "r = (d, coll')" by (cases r)
  have "d ''userId'' = idOfClaim L (((body a)(''userId'' := req_userId a)) ''userId'')
        \<and> present (d ''userId'') \<and> coll' = transactions s @ [d]"
    by (rule saved_userId [OF Inr [unfolded r]])
       (simp_all add: Transaction_def transactionSchema_def touch_def)
  with assms Inr r show ?thesis by (auto simp: addTransaction_def Let_def)
qed

lemma addBalanceItem_cases:
  assumes "addBalanceItem L now s a = (res, s')"
  shows "(res = serverError \<and> s' = s)
       \<or> (\<exists>d. s' = s\<lparr>balanceItems := balanceItems s @ [d]\<rparr> \<and> status res = 201 \<and> data res = Some d
             \<and> d ''userId'' = idOfClaim L (req_userId a) \<and> present (d ''userId''))"
proof (cases "save now BalanceItem (balanceItems s)
                (newDoc L now BalanceItem (balanceItems s) ((body a)(''userId'' := req_userId a)))")
  case (Inl err)
  with assms show ?thesis by (auto simp: addBalanceItem_def Let_def)
next
  case (Inr r)
  obtain d coll' where r: "r = (d, coll')" by (cases r)
  have "d ''userId'' = idOfClaim L (((body a)(''userId'' := req_userId a)) ''userId'')
        \<and> present (d ''userId'') \<and> coll' = balanceItems s @ [d]"
    by (rule saved_userId [OF Inr [unfolded r]])
       (simp_all add: BalanceItem_def balanceItemSchema_def touch_def)
  with assms Inr r show ?thesis by (auto simp: addBalanceItem_def Let_def)
qed

lemma addCategory_cases:
  assumes "addCategory L now s a = (res, s')"
  shows "(status res \<noteq> 201 \<and> s' = s)
       \<or> (\<exists>d. s' = s\<lparr>categories := categories s @ [d]\<rparr> \<and> status res = 201 \<and> data res = Some d
             \<and> d ''userId'' = idOfClaim L (req_userId a) \<and> present (d ''userId''))"
proof -
  let ?obj = "(Map.empty(''type'' := body a ''type'', ''name'' := body a ''name'',
                 ''isDefault'' \<mapsto> JBool False))(''userId'' := req_userId a)"
  let ?sv = "save now Category (categories s) (newDoc L now Category (categories s) ?obj)"
  show ?thesis
  proof (cases ?sv)
    case (Inl err)
    with assms show ?thesis
      by (auto simp: addCategory_def Let_def serverError_def reply_def
          split: if_splits sum.splits option.splits)
  next
    case (Inr r)
    obtain d coll' where r: "r = (d, coll')" by (cases r)
    have "d ''userId'' = idOfClaim L (?obj ''userId'')
          \<and> present (d ''userId'') \<and> coll' = categories s @ [d]"
      by (rule saved_userId [OF Inr [unfolded r]])
         (simp_all add: Category_def categorySchema_def)
    with assms Inr r show ?thesis
      by (auto simp: addCategory_def Let_def serverError_def reply_def
          split: if_splits sum.splits option.splits)
  qed
qed


lemmas engine_defs = findOne_def findOneAndUpdate_def findOneAndDelete_def castUpdate_def applySet_def
  withId_def path_def always_def castQuery_def castPath_def matches_def keyOf_def
  newDoc_def initPath_def save_def invalidPaths_def validPath_def present_def duplicate_def
  freshId_def ids_def List.map_filter_def trim_js_def isSpace_def Let_def
  Transaction_def BalanceItem_def Category_def transactionSchema_def balanceItemSchema_def
  categorySchema_def touch_def trunc_def

lemmas store_defs = demoStore_def alice_def bob_def aliceSale_def alicePenjualan_def aliceSewa_def



subsection \<open>Updating and deleting by identifier\<close>

lemma idOfClaim_JStr: "idOfClaim L (Some (JStr pid)) = map_option BId (parseObjectId L pid)"
  by (simp add: idOfClaim_def)

lemma castFilter_Transaction:
  "castFilter L (withId (schema Transaction)) [(''_id'', Some (JStr pid)), (''userId'', v)] =
     (case parseObjectId L pid of
        None \<Rightarrow> Inl (CastError ''_id'')
      | Some i \<Rightarrow>
          (case idOfClaim L v of
             None \<Rightarrow> Inl (CastError ''userId'')
           | Some u \<Rightarrow> Inr [(''_id'', BId i), (''userId'', u)]))"
  by (simp add: withId_def Transaction_def transactionSchema_def castQuery_id idOfClaim_JStr
      split: option.splits)

lemma castQuery_isDefault:
  "castQuery L ((path TBoolean)\<lparr>dflt := d\<rparr>) (Some (JBool b)) = Some (BBool b)"
  by (simp add: castQuery_def castPath_def path_def)

lemma castFilter_Category:
  "castFilter L (withId (schema Category))
       [(''_id'', Some (JStr pid)), (''userId'', v), (''isDefault'', Some (JBool False))] =
     (case parseObjectId L pid of
        None \<Rightarrow> Inl (CastError ''_id'')
      | Some i \<Rightarrow>
          (case idOfClaim L v of
             None \<Rightarrow> Inl (CastError ''userId'')
           | Some u \<Rightarrow> Inr [(''_id'', BId i), (''userId'', u), (''isDefault'', BBool False)]))"
  by (simp add: withId_def Category_def categorySchema_def castQuery_id castQuery_isDefault
      idOfClaim_JStr split: option.splits)

lemma deleteFirst_none: "filter P xs = [] \<Longrightarrow> deleteFirst P xs = xs"
  by (induction xs) (auto split: if_splits)

lemma find_none: "filter P xs = [] \<Longrightarrow> List.find P xs = None"
  by (simp add: find_None_iff filter_empty_conv)

lemma filter_none_weaker: "filter P xs = [] \<Longrightarrow> filter (\<lambda>x. P x \<and> Q x) xs = []"
  by (auto simp: filter_empty_conv)


lemma matches_own_custom:
  "matches [(''_id'', i), (''userId'', u), (''isDefault'', b)]
     = (\<lambda>d. keyOf d ''_id'' = i \<and> keyOf d ''userId'' = u \<and> keyOf d ''isDefault'' = b)"
  by (rule ext) (simp add: matches_def)

lemma authenticate_caller:
  assumes "authenticate L e now s req = Inr a"
  shows "idOfClaim L (req_userId a) = Some (caller a)"
  using authenticate_Inr(1) [OF assms] by (auto simp: caller_def)







lemma parse_abc: "parseObjectId demoLib ''abc'' = None"
  by (simp add: demo_defs)








text \<open>
  C10. For an authenticated PUT or DELETE /transactions/:id whose path identifier is not a
  well-formed ObjectId, the lookup throws and the answer is the generic 500, not 404; the
  store is left as it was.
\<close>

theorem malformed_id_is_server_error:
  assumes "authenticate L e now s req = Inr a" and "parseObjectId L (params_id req) = None"
  shows "PUT_transactions L e now s req = (serverError, s)
       \<and> DELETE_transactions L e now s req = (serverError, s)
       \<and> status serverError = 500"
  using assms authenticate_Inr(3,4) [OF assms(1)]
  by (simp add: PUT_transactions_def DELETE_transactions_def protected_def
      updateTransaction_def deleteTransaction_def findOneAndUpdate_def findOneAndDelete_def
      castFilter_Transaction serverError_def reply_def del: castFilter.simps)

theorem malformed_id_is_server_error_witness:
  "PUT_transactions demoLib demoEnv demoNow demoStore
       \<lparr>authorization = bearer aliceId, params_id = ''abc'', body = Map.empty\<rparr>
     = (serverError, demoStore)
   \<and> DELETE_transactions demoLib demoEnv demoNow demoStore
       \<lparr>authorization = bearer aliceId, params_id = ''abc'', body = Map.empty\<rparr>
     = (serverError, demoStore)"
  using malformed_id_is_server_error [OF authenticate_alice, of "''abc''" Map.empty] parse_abc
  by simp

lemma PUT_reassign:
  "PUT_transactions demoLib demoEnv demoNow demoStore reassign
     = updateTransaction demoLib demoNow demoStore
         \<lparr>authorization = bearer aliceId, params_id = saleId, body = [''userId'' \<mapsto> JStr bobId],
          req_userId = Some (JStr aliceId), req_user = alice\<rparr>"
  by (simp add: reassign_def PUT_transactions_def protected_def authenticate_alice)

text \<open>
  C2 fails on the code: the update document is the request body with updatedAt added, and
  nothing overrides its userId. Alice's PUT with Bob's identifier in the body succeeds
  and leaves her transaction stored under Bob's identifier.
\<close>

theorem PUT_transactions_reassigns_owner:
  "map (\<lambda>d. d ''userId'') (transactions demoStore) = [Some (BId 161)]
   \<and> status (fst (PUT_transactions demoLib demoEnv demoNow demoStore reassign)) = 200
   \<and> map (\<lambda>d. d ''userId'') (transactions (snd (PUT_transactions demoLib demoEnv demoNow demoStore reassign)))
       = [Some (BId 178)]"
  unfolding PUT_reassign
  by (simp add: updateTransaction_def engine_defs store_defs demo_defs saleId_def)

subsection \<open>Default categories\<close>

lemma deleteFirst_filter:
  "(\<And>x. P x \<Longrightarrow> \<not> Q x) \<Longrightarrow> filter Q (deleteFirst P xs) = filter Q xs"
  by (induction xs) auto

lemma flaggedDefault_not_false: "flaggedDefault c \<Longrightarrow> keyOf c ''isDefault'' \<noteq> BBool False"
  by (simp add: flaggedDefault_def keyOf_def)

lemma deleteCategory_defaults:
  "filter flaggedDefault (categories (snd (deleteCategory L now s a))) = filter flaggedDefault (categories s)"
proof (cases "parseObjectId L (params_id a)")
  case None
  then show ?thesis
    by (simp add: deleteCategory_def findOneAndDelete_def castFilter_Category del: castFilter.simps)
next
  case (Some i)
  show ?thesis
  proof (cases "idOfClaim L (req_userId a)")
    case None
    with Some show ?thesis
      by (simp add: deleteCategory_def findOneAndDelete_def castFilter_Category del: castFilter.simps)
  next
    case u: (Some u)
    let ?P = "\<lambda>d. keyOf d ''_id'' = BId i \<and> keyOf d ''userId'' = u \<and> keyOf d ''isDefault'' = BBool False"
    have k: "filter flaggedDefault (deleteFirst ?P (categories s)) = filter flaggedDefault (categories s)"
      by (rule deleteFirst_filter) (auto dest: flaggedDefault_not_false)
    show ?thesis
      using Some u k
      by (cases "List.find ?P (categories s)")
         (simp_all add: deleteCategory_def findOneAndDelete_def castFilter_Category
           matches_own_custom del: castFilter.simps)
  qed
qed

lemma authenticate_Inl:
  "authenticate L e now s req = Inl r \<Longrightarrow> status r = 401 \<and> \<not> success r"
  by (auto simp: authenticate_def Let_def reply_def split: option.splits if_splits sum.splits)

lemma deleteCategory_default_target:
  assumes "targetsDefault L (params_id a) (categories s)" and "idOfClaim L (req_userId a) = Some u"
  shows "deleteCategory L now s a = (categoryNotFound, s)"
proof -
  from assms(1) obtain i where i: "parseObjectId L (params_id a) = Some i"
    and d: "list_all (\<lambda>c. if keyOf c ''_id'' = BId i then flaggedDefault c else True) (categories s)"
    by (auto simp: targetsDefault_def split: option.splits)
  let ?P = "\<lambda>d. keyOf d ''_id'' = BId i \<and> keyOf d ''userId'' = u \<and> keyOf d ''isDefault'' = BBool False"
  have f: "filter ?P (categories s) = []"
    using d by (auto simp: filter_empty_conv list_all_iff dest: flaggedDefault_not_false split: if_splits)
  show ?thesis
    using assms(2) i find_none [OF f] deleteFirst_none [OF f]
    by (simp add: deleteCategory_def findOneAndDelete_def castFilter_Category
        matches_own_custom categoryNotFound_def del: castFilter.simps)
qed

lemma createEach_appends: "\<exists>xs. createEach L now M objs coll = coll @ xs"
proof (induction objs arbitrary: coll)
  case Nil
  then show ?case by simp
next
  case (Cons obj objs)
  show ?case
  proof (cases "create L now M coll obj")
    case (Inl err)
    then show ?thesis by simp
  next
    case (Inr r)
    obtain d coll' where r: "r = (d, coll')" by (cases r)
    from Inr r have "coll' = coll @ [d]" by (simp add: create_def save_Inr(3))
    moreover from Cons.IH obtain xs where "createEach L now M objs coll' = coll' @ xs" by blast
    ultimately show ?thesis using Inr r by simp
  qed
qed

lemma POST_register_categories:
  "\<exists>xs. categories (snd (POST_register L now s req)) = categories s @ xs"
proof -
  have c: "\<And>s0 uid. \<exists>xs. categories (createDefaultCategories L now s0 uid) = categories s0 @ xs"
    using createEach_appends by (simp add: createDefaultCategories_def)
  have u: "\<And>us uid. \<exists>xs. categories (createDefaultCategories L now (s\<lparr>users := us\<rparr>) uid) = categories s @ xs"
    using c [of "s\<lparr>users := us\<rparr>" for us] by simp
  show ?thesis
    unfolding POST_register_def Let_def
    by (auto split: if_splits sum.splits option.splits prod.splits simp: u)
qed

lemma protected_categories:
  assumes "\<And>a. \<exists>xs. categories (snd (h L now s a)) = categories s @ xs"
  shows "\<exists>xs. categories (snd (protected h L e now s req)) = categories s @ xs"
  using assms by (cases "authenticate L e now s req") (simp_all add: protected_def)

lemma addTransaction_categories: "categories (snd (addTransaction L now s a)) = categories s"
  using addTransaction_cases [of L now s a "fst (addTransaction L now s a)" "snd (addTransaction L now s a)"]
  by auto

lemma addBalanceItem_categories: "categories (snd (addBalanceItem L now s a)) = categories s"
  using addBalanceItem_cases [of L now s a "fst (addBalanceItem L now s a)" "snd (addBalanceItem L now s a)"]
  by auto

lemma addCategory_categories: "\<exists>xs. categories (snd (addCategory L now s a)) = categories s @ xs"
  using addCategory_cases [of L now s a "fst (addCategory L now s a)" "snd (addCategory L now s a)"]
  by auto

lemma updateTransaction_categories: "categories (snd (updateTransaction L now s a)) = categories s"
  by (simp add: updateTransaction_def split: sum.splits option.splits prod.splits)

lemma deleteTransaction_categories: "categories (snd (deleteTransaction L now s a)) = categories s"
  by (simp add: deleteTransaction_def split: sum.splits option.splits prod.splits)

lemma DELETE_categories_defaults:
  "filter flaggedDefault (categories (snd (DELETE_categories L e now s req)))
     = filter flaggedDefault (categories s)"
  by (cases "authenticate L e now s req")
     (simp_all add: DELETE_categories_def protected_def deleteCategory_defaults)

lemma app_categories:
  "\<exists>xs. filter flaggedDefault (categories (snd (app L e now ep s req)))
          = filter flaggedDefault (categories s) @ xs"
proof -
  have ap: "\<And>s'. \<exists>xs. categories s' = categories s @ xs
              \<Longrightarrow> \<exists>xs. filter flaggedDefault (categories s') = filter flaggedDefault (categories s) @ xs"
    by auto
  show ?thesis
  proof (cases ep)
    case Register
    then show ?thesis using ap [OF POST_register_categories] by simp
  next
    case AddTransaction
    then show ?thesis
      using ap [OF protected_categories [of addTransaction]]
      by (simp add: POST_transactions_def addTransaction_categories)
  next
    case UpdateTransaction
    then show ?thesis
      using ap [OF protected_categories [of updateTransaction]]
      by (simp add: PUT_transactions_def updateTransaction_categories)
  next
    case DeleteTransaction
    then show ?thesis
      using ap [OF protected_categories [of deleteTransaction]]
      by (simp add: DELETE_transactions_def deleteTransaction_categories)
  next
    case AddBalanceItem
    then show ?thesis
      using ap [OF protected_categories [of addBalanceItem]]
      by (simp add: POST_balance_items_def addBalanceItem_categories)
  next
    case AddCategory
    then show ?thesis
      using ap [OF protected_categories [of addCategory]]
      by (simp add: POST_categories_def addCategory_categories)
  next
    case DeleteCategory
    then show ?thesis using DELETE_categories_defaults [of L e now s req] by simp
  qed
qed

text \<open>
  C9. No writing endpoint removes a category flagged isDefault: after any of them the
  default categories stored before are still stored, in order (registration only adds
  some). DELETE /categories/:id leaves them exactly as they were, and when its target is
  flagged default the request fails and the store is unchanged, whoever the caller is:
  401 from the guard, 404 for every authenticated caller, owner or not.
\<close>

theorem default_categories_stay:
  "(\<exists>added. filter flaggedDefault (categories (snd (app L e now ep s req)))
             = filter flaggedDefault (categories s) @ added)
   \<and> filter flaggedDefault (categories (snd (DELETE_categories L e now s req)))
       = filter flaggedDefault (categories s)
   \<and> (targetsDefault L (params_id req) (categories s) \<longrightarrow>
         snd (DELETE_categories L e now s req) = s
         \<and> \<not> success (fst (DELETE_categories L e now s req))
         \<and> (\<forall>a. authenticate L e now s req = Inr a
               \<longrightarrow> fst (DELETE_categories L e now s req) = categoryNotFound))"
proof (intro conjI impI allI)
  show "\<exists>added. filter flaggedDefault (categories (snd (app L e now ep s req)))
             = filter flaggedDefault (categories s) @ added"
    by (rule app_categories)
  show "filter flaggedDefault (categories (snd (DELETE_categories L e now s req)))
       = filter flaggedDefault (categories s)"
    by (rule DELETE_categories_defaults)
next
  assume t: "targetsDefault L (params_id req) (categories s)"
  have r: "snd (DELETE_categories L e now s req) = s
           \<and> \<not> success (fst (DELETE_categories L e now s req))
           \<and> (\<forall>a. authenticate L e now s req = Inr a
                 \<longrightarrow> fst (DELETE_categories L e now s req) = categoryNotFound)"
  proof (cases "authenticate L e now s req")
    case (Inl res)
    then show ?thesis
      using authenticate_Inl [OF Inl] by (simp add: DELETE_categories_def protected_def)
  next
    case (Inr a)
    have "deleteCategory L now s a = (categoryNotFound, s)"
      using deleteCategory_default_target [of L a s "caller a" now] t
        authenticate_caller [OF Inr] authenticate_Inr(4) [OF Inr]
      by simp
    with Inr show ?thesis
      by (simp add: DELETE_categories_def protected_def categoryNotFound_def reply_def)
  qed
  from r show "snd (DELETE_categories L e now s req) = s" by simp
  from r show "\<not> success (fst (DELETE_categories L e now s req))" by simp
  fix a assume "authenticate L e now s req = Inr a"
  with r show "fst (DELETE_categories L e now s req) = categoryNotFound" by simp
qed

lemma targets_penjualan: "targetsDefault demoLib penjualanId (categories demoStore)"
  by (simp add: targetsDefault_def penjualanId_def demo_defs store_defs keyOf_def flaggedDefault_def)

theorem default_categories_stay_witness:
  "flaggedDefault alicePenjualan \<and> alicePenjualan ''userId'' = alice ''_id''
   \<and> DELETE_categories demoLib demoEnv demoNow demoStore
        \<lparr>authorization = bearer aliceId, params_id = penjualanId, body = Map.empty\<rparr>
      = (categoryNotFound, demoStore)
   \<and> DELETE_categories demoLib demoEnv demoNow demoStore
        \<lparr>authorization = bearer bobId, params_id = penjualanId, body = Map.empty\<rparr>
      = (categoryNotFound, demoStore)"
  using default_categories_stay [of demoLib demoEnv demoNow DeleteCategory demoStore
      "\<lparr>authorization = bearer aliceId, params_id = penjualanId, body = Map.empty\<rparr>"]
    default_categories_stay [of demoLib demoEnv demoNow DeleteCategory demoStore
      "\<lparr>authorization = bearer bobId, params_id = penjualanId, body = Map.empty\<rparr>"]
    targets_penjualan authenticate_alice [of penjualanId Map.empty]
    authenticate_bob [of penjualanId Map.empty]
  by (auto simp: flaggedDefault_def alicePenjualan_def alice_def prod_eq_iff)

subsection \<open>Validation of a new transaction\<close>








subsection \<open>Registration\<close>

lemma castQuery_email:
  "castQuery L ((path TString)\<lparr>required := r\<rparr>) (Some (JStr x)) = Some (BStr x)"
  by (simp add: castQuery_def castPath_def path_def)

lemma findOne_email:
  "findOne L (User L) coll [(''email'', Some (JStr x))]
     = Inr (List.find (\<lambda>d. keyOf d ''email'' = BStr x) coll)"
proof -
  have m: "matches [(''email'', BStr x)] = (\<lambda>d. keyOf d ''email'' = BStr x)"
    by (rule ext) (simp add: matches_def)
  show ?thesis
    by (simp add: findOne_def User_def userSchema_def withId_def castQuery_email m)
qed

lemma newDoc_User_email:
  "obj ''email'' = Some (JStr x) \<Longrightarrow> doc (newDoc L now (User L) coll obj) ''email'' = Some (BStr x)"
  by (simp add: newDoc_def withId_def User_def userSchema_def initPath_def castPath_def path_def)

lemma hashPassword_email: "hashPassword L now d ''email'' = d ''email''"
  by (simp add: hashPassword_def split: option.splits bson.splits)

lemma users_createDefaultCategories: "users (createDefaultCategories L now s uid) = users s"
  by (simp add: createDefaultCategories_def)

lemma toLowerCase_js_Inr: "toLowerCase_js v = Inr x \<Longrightarrow> \<exists>e. v = Some (JStr e) \<and> x = toLowerCase e"
  by (auto simp: toLowerCase_js_def split: option.splits jsval.splits)

lemma register_created:
  assumes "POST_register L now s req = (res, s')" and "status res = 201"
  shows "\<exists>e u. body req ''email'' = Some (JStr e) \<and> e \<noteq> [] \<and> u \<in> set (users s')
               \<and> u ''email'' = Some (BStr (toLowerCase e))"
proof -
  let ?email = "body req ''email''" and ?pw = "body req ''password''"
  have tr: "truthy ?email \<and> truthy ?pw"
    using assms by (auto simp: POST_register_def Let_def reply_def split: if_splits)
  have nl: "\<not> lt_js L (case ?pw of None \<Rightarrow> None | Some x \<Rightarrow> length_js x) 4"
    using assms tr by (auto simp: POST_register_def Let_def reply_def split: if_splits)
  obtain lower where low: "toLowerCase_js ?email = Inr lower"
    using assms tr nl
    by (cases "toLowerCase_js ?email") (auto simp: POST_register_def Let_def reply_def serverError_def)
  let ?dr = "newDoc L now (User L) (users s) ([''email'' \<mapsto> JStr lower](''password'' := ?pw))"
  have fo: "findOne L (User L) (users s) [(''email'', Some (JStr lower))] = Inr None"
    using assms tr nl low
    by (cases "findOne L (User L) (users s) [(''email'', Some (JStr lower))]")
       (auto simp: POST_register_def Let_def reply_def serverError_def split: option.splits)
  obtain u us where sv: "save now (User L) (users s) ?dr = Inr (u, us)"
    using assms tr nl low fo
    by (cases "save now (User L) (users s) ?dr")
       (auto simp: POST_register_def Let_def reply_def serverError_def)
  have s': "s' = createDefaultCategories L now (s\<lparr>users := us\<rparr>) (idOf u)"
    using assms tr nl low fo sv by (simp add: POST_register_def Let_def)
  from toLowerCase_js_Inr [OF low] obtain e where e: "?email = Some (JStr e)" "lower = toLowerCase e"
    by blast
  have "u = preSave (User L) now (doc ?dr)" and us: "us = users s @ [u]"
    using save_Inr [OF sv] by auto
  then have "u ''email'' = Some (BStr lower)"
    by (simp add: User_def hashPassword_email newDoc_User_email [unfolded User_def])
  moreover have "u \<in> set (users s')"
    using s' us by (simp add: users_createDefaultCategories)
  moreover have "e \<noteq> []" using tr e(1) by (simp add: truthy_def)
  ultimately show ?thesis using e by blast
qed

lemma register_duplicate:
  assumes "u \<in> set (users s)" and "u ''email'' = Some (BStr (toLowerCase e))"
    and "body req ''email'' = Some (JStr e)" and "e \<noteq> []"
  shows "(\<exists>msg. POST_register L now s req = (reply 400 False msg, s))
       \<and> (acceptablePassword L (body req ''password'') \<longrightarrow> POST_register L now s req = (duplicateEmail, s))"
proof -
  have "keyOf u ''email'' = BStr (toLowerCase e)" using assms(2) by (simp add: keyOf_def)
  with assms(1) have "List.find (\<lambda>d. keyOf d ''email'' = BStr (toLowerCase e)) (users s) \<noteq> None"
    by (auto simp: find_None_iff)
  then obtain x where x: "List.find (\<lambda>d. keyOf d ''email'' = BStr (toLowerCase e)) (users s) = Some x"
    by blast
  show ?thesis
    using assms(3,4) x
    by (auto simp: POST_register_def Let_def findOne_email toLowerCase_js_def duplicateEmail_def
        acceptablePassword_def truthy_def)
qed

text \<open>
  C7. Once a registration has succeeded, a registration under an email that differs from
  the registered one by letter case only is answered with 400 in any later store that
  still has the user, and creates nothing; with a password that passes the handler's
  checks the answer is the duplicate-email one.
\<close>

theorem case_variant_registration_is_duplicate:
  assumes "POST_register L now s req1 = (res1, s1)" and "status res1 = 201"
    and "body req1 ''email'' = Some (JStr e1)" and "body req2 ''email'' = Some (JStr e2)"
    and "toLowerCase e1 = toLowerCase e2"
    and "set (users s1) \<subseteq> set (users s2)"
  shows "(\<exists>msg. POST_register L now' s2 req2 = (reply 400 False msg, s2))
       \<and> (acceptablePassword L (body req2 ''password'')
            \<longrightarrow> POST_register L now' s2 req2 = (duplicateEmail, s2))"
proof -
  from register_created [OF assms(1,2)] assms(3) obtain u where
    u: "u \<in> set (users s1)" "u ''email'' = Some (BStr (toLowerCase e1))" and n: "e1 \<noteq> []"
    by auto
  have "length (toLowerCase e1) = length (toLowerCase e2)" using assms(5) by simp
  with n have n2: "e2 \<noteq> []" by (auto simp: toLowerCase_def)
  from u(1) assms(6) have "u \<in> set (users s2)" by blast
  moreover from u(2) assms(5) have "u ''email'' = Some (BStr (toLowerCase e2))" by simp
  ultimately show ?thesis using assms(4) n2 by (rule register_duplicate)
qed

lemma registerUpper_created:
  "status (fst (POST_register demoLib demoNow demoStore registerUpper)) = 201"
proof -
  let ?obj = "[''email'' \<mapsto> JStr ''a@b.com''](''password'' := Some (JStr ''abcd''))"
  have l: "toLowerCase ''A@B.com'' = ''a@b.com''"
    by (simp add: toLowerCase_def)
  have f: "findOne demoLib (User demoLib) (users demoStore) [(''email'', Some (JStr ''a@b.com''))]
             = Inr None"
    by (simp add: findOne_email keyOf_def store_defs)
  have v: "invalidPaths (User demoLib) (newDoc demoLib demoNow (User demoLib) (users demoStore) ?obj) = []"
    by (simp add: invalidPaths_def newDoc_def withId_def User_def userSchema_def initPath_def
        castPath_def path_def always_def validPath_def present_def)
  have d: "\<not> duplicate (User demoLib) (users demoStore)
               (preSave (User demoLib) demoNow
                  (doc (newDoc demoLib demoNow (User demoLib) (users demoStore) ?obj)))"
    by (simp add: duplicate_def newDoc_def withId_def User_def userSchema_def initPath_def
        castPath_def path_def hashPassword_def keyOf_def store_defs freshId_def ids_def
        List.map_filter_def)
  have sv: "save demoNow (User demoLib) (users demoStore)
              (newDoc demoLib demoNow (User demoLib) (users demoStore) ?obj)
            = Inr (preSave (User demoLib) demoNow
                     (doc (newDoc demoLib demoNow (User demoLib) (users demoStore) ?obj)),
                   users demoStore
                   @ [preSave (User demoLib) demoNow
                       (doc (newDoc demoLib demoNow (User demoLib) (users demoStore) ?obj))])"
    using v d by (simp add: save_def Let_def)
  show ?thesis
    by (simp add: POST_register_def registerUpper_def truthy_def lt_js_def length_js_def
        toLowerCase_js_def l f sv Let_def reply_def)
qed

theorem case_variant_registration_is_duplicate_witness:
  "status (fst (POST_register demoLib demoNow demoStore registerUpper)) = 201
   \<and> POST_register demoLib demoNow (snd (POST_register demoLib demoNow demoStore registerUpper))
        registerLower
      = (duplicateEmail, snd (POST_register demoLib demoNow demoStore registerUpper))"
proof -
  have p: "acceptablePassword demoLib (body registerLower ''password'')"
    by (simp add: acceptablePassword_def registerLower_def truthy_def lt_js_def length_js_def)
  have l: "toLowerCase ''A@B.com'' = toLowerCase ''a@b.com''"
    by (simp add: toLowerCase_def)
  show ?thesis
    using case_variant_registration_is_duplicate
      [of demoLib demoNow demoStore registerUpper
          "fst (POST_register demoLib demoNow demoStore registerUpper)"
          "snd (POST_register demoLib demoNow demoStore registerUpper)"
          "''A@B.com''" registerLower "''a@b.com''"
          "snd (POST_register demoLib demoNow demoStore registerUpper)" demoNow]
      registerUpper_created p l
    by (simp add: registerUpper_def registerLower_def)
qed

end
